theory Spec2Isabelle
  imports Complex_Main "HOL-Library.Sublist" "HOL-Library.Char_ord"
begin

section \<open>Python values, exceptions and the runtime\<close>

text \<open>
  The three scripts (\<^verbatim>\<open>maker.py\<close>, \<^verbatim>\<open>fixer.py\<close>, \<^verbatim>\<open>claude_loop.py\<close>) are modelled
  function by function. A Python exception is a value of \<open>py_exc\<close>; a call that may
  raise returns \<open>py_exc + 'a\<close> with \<open>Inl\<close> the exception. A Python \<^verbatim>\<open>str\<close> is a
  \<open>string\<close>; one \<open>char\<close> stands for one code point, and the character classes below
  (white space, digits, letter case) are those of the ASCII range. A JSON number with
  a fraction or an exponent (a Python float) has no constructor in \<open>json\<close>: the token
  counts the scripts read are integers.
\<close>

datatype py_exc =
  JSONDecodeError | ValueError | KeyError | IndexError | TypeError | AttributeError
  | NameError | RecursionError | OverflowError | OSError | TimeoutExpired

text \<open>\<^verbatim>\<open>isinstance(e, cls)\<close> on these classes: \<^verbatim>\<open>JSONDecodeError\<close> derives from
  \<^verbatim>\<open>ValueError\<close>; the others are unrelated to each other.\<close>

fun isinstance :: "py_exc \<Rightarrow> py_exc \<Rightarrow> bool" where
  "isinstance JSONDecodeError ValueError = True"
| "isinstance e c = (e = c)"

text \<open>What \<^verbatim>\<open>json.loads\<close> returns: \<^verbatim>\<open>None\<close>, a bool, an int, a str, a list or a dict
  (here an association list, looked up with \<open>map_of\<close>).\<close>

datatype json =
  JNull | JBool bool | JInt int | JString string | JArray "json list"
  | JObject "(string \<times> json) list"

text \<open>
  The parts of the Python runtime outside the repository are parameters:
  \<^verbatim>\<open>json.loads\<close> (which raises \<^verbatim>\<open>JSONDecodeError\<close> on malformed text and can raise other
  exceptions, such as \<^verbatim>\<open>RecursionError\<close> on deep nesting), the interpreter's limit on
  the digits of an integer literal given as a string (\<open>0\<close>: no limit), \<^verbatim>\<open>str(v)\<close> of
  a value that is not a str, \<^verbatim>\<open>int(d.timestamp())\<close> of a naive local \<^verbatim>\<open>datetime\<close>, and
  the exception, if any, that \<^verbatim>\<open>datetime.fromtimestamp(n)\<close> and \<^verbatim>\<open>time.sleep(n)\<close> raise
  for an integer \<open>n\<close> outside the platform's range.
\<close>

record datetime =
  year :: int
  month :: int
  day :: int
  hour :: int
  minute :: int
  second :: int
  microsecond :: int

record runtime =
  json_loads :: "string \<Rightarrow> py_exc + json"
  int_max_str_digits :: nat
  str_of :: "json \<Rightarrow> string"
  local_timestamp :: "datetime \<Rightarrow> int"
  fromtimestamp_raises :: "int \<Rightarrow> py_exc option"
  sleep_raises :: "int \<Rightarrow> py_exc option"

text \<open>Truth value of a decoded value, as \<^verbatim>\<open>if v\<close> and \<^verbatim>\<open>v and w\<close> test it.\<close>

fun truthy :: "json \<Rightarrow> bool" where
  "truthy JNull = False"
| "truthy (JBool b) = b"
| "truthy (JInt n) = (n \<noteq> 0)"
| "truthy (JString s) = (s \<noteq> [])"
| "truthy (JArray xs) = (xs \<noteq> [])"
| "truthy (JObject kvs) = (kvs \<noteq> [])"

text \<open>\<^verbatim>\<open>v.get(k, d)\<close>: only a dict has the method; on every other value the attribute
  lookup raises \<^verbatim>\<open>AttributeError\<close>.\<close>

fun py_get :: "json \<Rightarrow> string \<Rightarrow> json \<Rightarrow> py_exc + json" where
  "py_get (JObject kvs) k d = Inr (case map_of kvs k of None \<Rightarrow> d | Some v \<Rightarrow> v)"
| "py_get v k d = Inl AttributeError"

section \<open>Strings\<close>

text \<open>\<^verbatim>\<open>str.isspace\<close> on one ASCII character: tab, line feed, vertical tab, form feed,
  carriage return, the four separators \<^verbatim>\<open>0x1c..0x1f\<close> and the space.\<close>

definition is_space :: "char \<Rightarrow> bool" where
  "is_space c = (c \<in> set [CHR 0x09, CHR 0x0A, CHR 0x0B, CHR 0x0C, CHR 0x0D,
                           CHR 0x1C, CHR 0x1D, CHR 0x1E, CHR 0x1F, CHR 0x20])"

definition is_digit :: "char \<Rightarrow> bool" where
  "is_digit c = (c \<in> set ''0123456789'')"

definition digit_val :: "char \<Rightarrow> nat" where
  "digit_val c = of_char c - 48"

definition to_upper :: "char \<Rightarrow> char" where
  "to_upper c =
     (case map_of (zip ''abcdefghijklmnopqrstuvwxyz'' ''ABCDEFGHIJKLMNOPQRSTUVWXYZ'') c of
        None \<Rightarrow> c | Some u \<Rightarrow> u)"

definition to_lower :: "char \<Rightarrow> char" where
  "to_lower c =
     (case map_of (zip ''ABCDEFGHIJKLMNOPQRSTUVWXYZ'' ''abcdefghijklmnopqrstuvwxyz'') c of
        None \<Rightarrow> c | Some l \<Rightarrow> l)"

text \<open>\<^verbatim>\<open>s.strip()\<close>, \<^verbatim>\<open>s.upper()\<close>, \<^verbatim>\<open>s.startswith(p)\<close> and \<^verbatim>\<open>p in s\<close>.\<close>

definition py_strip :: "string \<Rightarrow> string" where
  "py_strip s = rev (dropWhile is_space (rev (dropWhile is_space s)))"

definition py_upper :: "string \<Rightarrow> string" where
  "py_upper s = map to_upper s"

definition py_lower :: "string \<Rightarrow> string" where
  "py_lower s = map to_lower s"

fun startswith :: "string \<Rightarrow> string \<Rightarrow> bool" where
  "startswith s [] = True"
| "startswith [] (p # ps) = False"
| "startswith (c # cs) (p # ps) = (if c = p then startswith cs ps else False)"

fun py_contains :: "string \<Rightarrow> string \<Rightarrow> bool" where
  "py_contains p [] = (p = [])"
| "py_contains p (c # cs) = (if startswith (c # cs) p then True else py_contains p cs)"

text \<open>\<^verbatim>\<open>s.rfind(' ')\<close>: the highest index of a space, \<open>-1\<close> when there is none.\<close>

fun rfind_from :: "char \<Rightarrow> string \<Rightarrow> int \<Rightarrow> int \<Rightarrow> int" where
  "rfind_from x [] i found = found"
| "rfind_from x (c # cs) i found = rfind_from x cs (i + 1) (if c = x then i else found)"

definition py_rfind :: "string \<Rightarrow> char \<Rightarrow> int" where
  "py_rfind s x = rfind_from x s 0 (-1)"

text \<open>\<^verbatim>\<open>s.split("|", 1)[1]\<close>: what follows the first separator; \<^verbatim>\<open>IndexError\<close> when the
  separator does not occur (the split then has one element).\<close>

fun after_first :: "char \<Rightarrow> string \<Rightarrow> py_exc + string" where
  "after_first x [] = Inl IndexError"
| "after_first x (c # cs) = (if c = x then Inr cs else after_first x cs)"

text \<open>
  \<^verbatim>\<open>int(s)\<close> on a str, base ten: white space around is dropped (for ASCII text the
  six characters of C's \<^verbatim>\<open>isspace\<close>; the separators \<^verbatim>\<open>0x1c..0x1f\<close> are not among them),
  one sign is allowed, then digits, with single underscores allowed between two
  digits. Anything else raises \<^verbatim>\<open>ValueError\<close>, and so does a literal with more
  digits than the interpreter's limit when a limit is set.
\<close>

definition is_c_space :: "char \<Rightarrow> bool" where
  "is_c_space c = (c \<in> set [CHR 0x09, CHR 0x0A, CHR 0x0B, CHR 0x0C, CHR 0x0D, CHR 0x20])"

fun int_digits :: "string \<Rightarrow> nat \<Rightarrow> nat option" where
  "int_digits [] acc = Some acc"
| "int_digits [c] acc = (if is_digit c then Some (10 * acc + digit_val c) else None)"
| "int_digits (c # d # cs) acc =
     (if is_digit c then int_digits (d # cs) (10 * acc + digit_val c)
      else if c = CHR ''_'' \<and> is_digit d then int_digits cs (10 * acc + digit_val d)
      else None)"

definition int_body :: "string \<Rightarrow> nat option" where
  "int_body s = (case s of [] \<Rightarrow> None
                 | c # cs \<Rightarrow> if is_digit c then int_digits cs (digit_val c) else None)"

definition c_strip :: "string \<Rightarrow> string" where
  "c_strip s = rev (dropWhile is_c_space (rev (dropWhile is_c_space s)))"

definition py_int :: "runtime \<Rightarrow> string \<Rightarrow> py_exc + int" where
  "py_int rt s =
     (let t = c_strip s;
          neg = (case t of [] \<Rightarrow> False | c # cs \<Rightarrow> c = CHR ''-'');
          b = (case t of [] \<Rightarrow> [] | c # cs \<Rightarrow> if c = CHR ''-'' \<or> c = CHR ''+'' then cs else t)
      in case int_body b of
           None \<Rightarrow> Inl ValueError
         | Some n \<Rightarrow>
             if 0 < int_max_str_digits rt \<and> int_max_str_digits rt < length (filter is_digit b)
             then Inl ValueError
             else Inr (if neg then - int n else int n))"

section \<open>The usage accumulator (\<^verbatim>\<open>StatsTracker\<close> of maker.py and fixer.py)\<close>

text \<open>The two files hold the same class, line for line.\<close>

record StatsTracker =
  total_input_tokens :: int
  total_output_tokens :: int
  total_cache_read_tokens :: int
  total_cache_write_tokens :: int
  iterations :: int
  start_time :: real

text \<open>\<^verbatim>\<open>total += v\<close> with an int total: an int is added, a bool counts as 0 or 1, and
  \<^verbatim>\<open>None\<close>, a str, a list or a dict raise \<^verbatim>\<open>TypeError\<close>.\<close>

fun add_count :: "int \<Rightarrow> json \<Rightarrow> py_exc + int" where
  "add_count tot (JInt n) = Inr (tot + n)"
| "add_count tot (JBool b) = Inr (tot + (if b then 1 else 0))"
| "add_count tot v = Inl TypeError"

text \<open>\<^verbatim>\<open>total += d.get(k, 0)\<close>.\<close>

definition add_field :: "json \<Rightarrow> string \<Rightarrow> int \<Rightarrow> py_exc + int" where
  "add_field d k tot =
     (case py_get d k (JInt 0) of Inl e \<Rightarrow> Inl e | Inr v \<Rightarrow> add_count tot v)"

text \<open>A statement runs on the tracker and either completes or raises; what it had
  already stored stays stored. \<open>then_do\<close> runs the next statement unless one raised.\<close>

type_synonym stmt_result = "StatsTracker \<times> py_exc option"

fun then_do :: "stmt_result \<Rightarrow> (StatsTracker \<Rightarrow> stmt_result) \<Rightarrow> stmt_result" where
  "then_do (st, None) f = f st"
| "then_do (st, Some e) f = (st, Some e)"

definition add_input :: "json \<Rightarrow> StatsTracker \<Rightarrow> stmt_result" where
  "add_input usage st =
     (case add_field usage ''input_tokens'' (total_input_tokens st) of
        Inl e \<Rightarrow> (st, Some e)
      | Inr n \<Rightarrow> (st\<lparr>total_input_tokens := n\<rparr>, None))"

definition add_output :: "json \<Rightarrow> StatsTracker \<Rightarrow> stmt_result" where
  "add_output usage st =
     (case add_field usage ''output_tokens'' (total_output_tokens st) of
        Inl e \<Rightarrow> (st, Some e)
      | Inr n \<Rightarrow> (st\<lparr>total_output_tokens := n\<rparr>, None))"

definition add_cache_read :: "json \<Rightarrow> StatsTracker \<Rightarrow> stmt_result" where
  "add_cache_read usage st =
     (case add_field usage ''cache_read_input_tokens'' (total_cache_read_tokens st) of
        Inl e \<Rightarrow> (st, Some e)
      | Inr n \<Rightarrow> (st\<lparr>total_cache_read_tokens := n\<rparr>, None))"

definition add_cache_write :: "json \<Rightarrow> string \<Rightarrow> StatsTracker \<Rightarrow> stmt_result" where
  "add_cache_write cache_creation k st =
     (case add_field cache_creation k (total_cache_write_tokens st) of
        Inl e \<Rightarrow> (st, Some e)
      | Inr n \<Rightarrow> (st\<lparr>total_cache_write_tokens := n\<rparr>, None))"

text \<open>The body of the \<^verbatim>\<open>try\<close> after \<^verbatim>\<open>json.loads\<close>, statement by statement.\<close>

definition usage_statements :: "json \<Rightarrow> StatsTracker \<Rightarrow> stmt_result" where
  "usage_statements data st =
     (case py_get data ''usage'' (JObject []) of
        Inl e \<Rightarrow> (st, Some e)
      | Inr usage \<Rightarrow>
          then_do (then_do (then_do (add_input usage st) (add_output usage))
                     (add_cache_read usage))
            (\<lambda>st3. case py_get usage ''cache_creation'' (JObject []) of
                      Inl e \<Rightarrow> (st3, Some e)
                    | Inr cache_creation \<Rightarrow>
                        then_do (add_cache_write cache_creation ''ephemeral_5m_input_tokens'' st3)
                          (add_cache_write cache_creation ''ephemeral_1h_input_tokens'')))"

text \<open>\<^verbatim>\<open>except (json.JSONDecodeError, ValueError, KeyError): pass\<close>.\<close>

definition usage_handler :: "py_exc \<Rightarrow> bool" where
  "usage_handler e =
     (isinstance e JSONDecodeError \<or> isinstance e ValueError \<or> isinstance e KeyError)"

definition parse_usage_from_json :: "runtime \<Rightarrow> StatsTracker \<Rightarrow> string \<Rightarrow> stmt_result" where
  "parse_usage_from_json rt st raw_json =
     (if raw_json = [] then (st, None)
      else case json_loads rt (py_strip raw_json) of
             Inl e \<Rightarrow> (st, if usage_handler e then None else Some e)
           | Inr data \<Rightarrow>
               (case usage_statements data st of
                  (st', None) \<Rightarrow> (st', None)
                | (st', Some e) \<Rightarrow> (st', if usage_handler e then None else Some e)))"

text \<open>\<^verbatim>\<open>for line in current_iteration_lines: stats.parse_usage_from_json(line)\<close> of
  \<^verbatim>\<open>main\<close>: an exception that leaves the method leaves the loop.\<close>

fun feed_usage :: "runtime \<Rightarrow> StatsTracker \<Rightarrow> string list \<Rightarrow> stmt_result" where
  "feed_usage rt st [] = (st, None)"
| "feed_usage rt st (l # ls) =
     (case parse_usage_from_json rt st l of
        (st', None) \<Rightarrow> feed_usage rt st' ls
      | (st', Some e) \<Rightarrow> (st', Some e))"



section \<open>Regular expressions of the detectors\<close>

text \<open>
  Each compiled pattern is used through \<^verbatim>\<open>search\<close> only, so it is modelled by the
  function that says whether (and for the clock pattern, with which groups) the
  pattern matches at some position, the leftmost first. All three are compiled with
  \<^verbatim>\<open>re.IGNORECASE\<close>: the pattern is in lower case and the subject is lower-cased
  before matching. \<open>some_suffix P s\<close> tries every start position.
\<close>

fun some_suffix :: "(string \<Rightarrow> bool) \<Rightarrow> string \<Rightarrow> bool" where
  "some_suffix P [] = P []"
| "some_suffix P (c # cs) = (if P (c # cs) then True else some_suffix P cs)"

fun first_suffix :: "(string \<Rightarrow> 'a option) \<Rightarrow> string \<Rightarrow> 'a option" where
  "first_suffix f [] = f []"
| "first_suffix f (c # cs) = (case f (c # cs) of Some r \<Rightarrow> Some r | None \<Rightarrow> first_suffix f cs)"

text \<open>
  maker.py and fixer.py: \<^verbatim>\<open>Claude.*(?:usage|use|limit).*reach\<close>. A dot matches every
  character but the line feed, so after \<^verbatim>\<open>claude\<close> the rest of the match lies before the
  next line feed: one of the three words there, and \<^verbatim>\<open>reach\<close> somewhere after it.
\<close>

definition word_then_reach :: "string \<Rightarrow> bool" where
  "word_then_reach s =
     list_ex (\<lambda>w. if startswith s w then py_contains ''reach'' (drop (length w) s) else False)
       [''usage'', ''use'', ''limit'']"

definition claude_limit_at :: "string \<Rightarrow> bool" where
  "claude_limit_at s =
     (if startswith s ''claude''
      then some_suffix word_then_reach (takeWhile (\<lambda>c. c \<noteq> CHR 0x0A) (drop 6 s))
      else False)"

definition RATE_LIMIT_MSG :: "string \<Rightarrow> bool" where
  "RATE_LIMIT_MSG s = some_suffix claude_limit_at (py_lower s)"

text \<open>
  claude\_loop.py: \<^verbatim>\<open>limit\s+reached\<close>. The white space is followed by a letter, so the
  run of white space is taken whole.
\<close>

definition limit_reached_at :: "string \<Rightarrow> bool" where
  "limit_reached_at s =
     (if startswith s ''limit''
      then (case drop 5 s of
              [] \<Rightarrow> False
            | c # cs \<Rightarrow>
                if is_space c then startswith (dropWhile is_space cs) ''reached'' else False)
      else False)"

definition LOOP_RATE_LIMIT_MSG :: "string \<Rightarrow> bool" where
  "LOOP_RATE_LIMIT_MSG s = some_suffix limit_reached_at (py_lower s)"

text \<open>
  claude\_loop.py: \<^verbatim>\<open>resets\s+(\d{1,2})(am|pm)\<close>. The result is the pair of groups, the
  second already lower-cased (the caller applies \<^verbatim>\<open>.lower()\<close> to it). Two digits are
  tried before one, as the greedy \<^verbatim>\<open>{1,2}\<close> does.
\<close>

definition am_pm_at :: "string \<Rightarrow> string option" where
  "am_pm_at s = (if startswith s ''am'' then Some ''am''
                 else if startswith s ''pm'' then Some ''pm'' else None)"

definition hour_am_pm_at :: "string \<Rightarrow> (string \<times> string) option" where
  "hour_am_pm_at s =
     (case (if 2 \<le> length s \<and> list_all is_digit (take 2 s) then am_pm_at (drop 2 s) else None) of
        Some ap \<Rightarrow> Some (take 2 s, ap)
      | None \<Rightarrow>
          (case (if 1 \<le> length s \<and> list_all is_digit (take 1 s) then am_pm_at (drop 1 s) else None) of
             Some ap \<Rightarrow> Some (take 1 s, ap)
           | None \<Rightarrow> None))"

definition resets_at :: "string \<Rightarrow> (string \<times> string) option" where
  "resets_at s =
     (if startswith s ''resets''
      then (case drop 6 s of
              [] \<Rightarrow> None
            | c # cs \<Rightarrow> if is_space c then hour_am_pm_at (dropWhile is_space cs) else None)
      else None)"

definition RESET_TIME_PATTERN :: "string \<Rightarrow> (string \<times> string) option" where
  "RESET_TIME_PATTERN s = first_suffix resets_at (py_lower s)"

section \<open>The detectors of maker.py and fixer.py\<close>

text \<open>\<^verbatim>\<open>d.get(k)\<close> and \<^verbatim>\<open>d.get(k, default)\<close> on a value known to be a dict.\<close>

definition dict_get :: "(string \<times> json) list \<Rightarrow> string \<Rightarrow> json \<Rightarrow> json" where
  "dict_get kvs k d = (case map_of kvs k of None \<Rightarrow> d | Some v \<Rightarrow> v)"

text \<open>\<^verbatim>\<open>except (json.JSONDecodeError, ValueError, IndexError)\<close> of both
  \<^verbatim>\<open>rate_limit_reset_epoch\<close> functions (the handler prints and falls through to
  \<^verbatim>\<open>return None\<close>).\<close>

definition epoch_handler :: "py_exc \<Rightarrow> bool" where
  "epoch_handler e =
     (isinstance e JSONDecodeError \<or> isinstance e ValueError \<or> isinstance e IndexError)"

text \<open>The body of the \<^verbatim>\<open>try\<close> of \<^verbatim>\<open>rate_limit_reset_epoch\<close> (maker.py, fixer.py) after
  \<^verbatim>\<open>json.loads\<close>; \<open>Inr None\<close> is falling out of the \<^verbatim>\<open>if\<close>.\<close>

fun reset_epoch_of :: "runtime \<Rightarrow> json \<Rightarrow> py_exc + int option" where
  "reset_epoch_of rt (JObject kvs) =
     (if truthy (dict_get kvs ''is_error'' JNull) \<and> map_of kvs ''result'' \<noteq> None
      then (case dict_get kvs ''result'' JNull of
              JString result \<Rightarrow>
                if RATE_LIMIT_MSG result \<and> CHR ''|'' \<in> set result
                then (case after_first CHR ''|'' result of
                        Inl e \<Rightarrow> Inl e
                      | Inr timestamp_str \<Rightarrow>
                          (case py_int rt timestamp_str of
                             Inl e \<Rightarrow> Inl e
                           | Inr n \<Rightarrow> Inr (Some n)))
                else Inr None
            | v \<Rightarrow> Inl TypeError)
      else Inr None)"
| "reset_epoch_of rt v = Inl AttributeError"

definition rate_limit_reset_epoch :: "runtime \<Rightarrow> string \<Rightarrow> py_exc + int option" where
  "rate_limit_reset_epoch rt raw_json =
     (if raw_json = [] then Inr None
      else case (case json_loads rt (py_strip raw_json) of
                   Inl e \<Rightarrow> Inl e
                 | Inr data \<Rightarrow> reset_epoch_of rt data) of
             Inl e \<Rightarrow> if epoch_handler e then Inr None else Inl e
           | Inr r \<Rightarrow> Inr r)"

text \<open>
  \<^verbatim>\<open>"result" in data\<close> followed by \<^verbatim>\<open>data["result"]\<close>: on a dict the key test and the
  lookup; on a list or a str the membership test succeeds or not and the subscript
  with a str then raises \<^verbatim>\<open>TypeError\<close>; on \<^verbatim>\<open>None\<close>, a bool or an int the test itself
  raises \<^verbatim>\<open>TypeError\<close>. \<open>Inr None\<close>: the test is false.
\<close>

fun result_field :: "json \<Rightarrow> py_exc + json option" where
  "result_field (JObject kvs) = Inr (map_of kvs ''result'')"
| "result_field (JArray xs) =
     (if JString ''result'' \<in> set xs then Inl TypeError else Inr None)"
| "result_field (JString s) =
     (if py_contains ''result'' s then Inl TypeError else Inr None)"
| "result_field v = Inl TypeError"

text \<open>\<^verbatim>\<open>result.strip().upper()\<close>: only a str has \<^verbatim>\<open>strip\<close>.\<close>

fun strip_upper :: "json \<Rightarrow> py_exc + string" where
  "strip_upper (JString result) = Inr (py_upper (py_strip result))"
| "strip_upper v = Inl AttributeError"

text \<open>\<^verbatim>\<open>except (json.JSONDecodeError, ValueError, KeyError): pass\<close> of \<^verbatim>\<open>is_done\<close> and
  \<^verbatim>\<open>is_actually_working\<close>, followed by \<^verbatim>\<open>return False\<close>.\<close>

definition completion_handler :: "py_exc \<Rightarrow> bool" where
  "completion_handler e =
     (isinstance e JSONDecodeError \<or> isinstance e ValueError \<or> isinstance e KeyError)"

definition is_done :: "runtime \<Rightarrow> string \<Rightarrow> py_exc + bool" where
  "is_done rt raw_json =
     (if raw_json = [] then Inr False
      else case (case json_loads rt (py_strip raw_json) of
                   Inl e \<Rightarrow> Inl e
                 | Inr data \<Rightarrow>
                     (case result_field data of
                        Inl e \<Rightarrow> Inl e
                      | Inr None \<Rightarrow> Inr False
                      | Inr (Some result) \<Rightarrow>
                          (case strip_upper result of
                             Inl e \<Rightarrow> Inl e
                           | Inr u \<Rightarrow> Inr (startswith u ''DONE'')))) of
             Inl e \<Rightarrow> if completion_handler e then Inr False else Inl e
           | Inr b \<Rightarrow> Inr b)"

definition is_actually_working :: "runtime \<Rightarrow> string \<Rightarrow> py_exc + bool" where
  "is_actually_working rt raw_json =
     (if raw_json = [] then Inr False
      else case (case json_loads rt (py_strip raw_json) of
                   Inl e \<Rightarrow> Inl e
                 | Inr data \<Rightarrow>
                     (case result_field data of
                        Inl e \<Rightarrow> Inl e
                      | Inr None \<Rightarrow> Inr False
                      | Inr (Some result) \<Rightarrow>
                          (case strip_upper result of
                             Inl e \<Rightarrow> Inl e
                           | Inr u \<Rightarrow> Inr (py_contains ''ACTUALLY_WORKING'' u)))) of
             Inl e \<Rightarrow> if completion_handler e then Inr False else Inl e
           | Inr b \<Rightarrow> Inr b)"

text \<open>\<^verbatim>\<open>claude_cmd\<close> (the same in the three files); \<open>PROMPT\<close> is the module's instruction
  text, pure data, taken as a parameter.\<close>

definition claude_cmd :: "string \<Rightarrow> bool \<Rightarrow> string list" where
  "claude_cmd PROMPT continue_flag =
     [''/usr/local/bin/claude'']
     @ (if continue_flag then [''--continue''] else [])
     @ [''--dangerously-skip-permissions'', ''--verbose'', ''--output-format'',
        ''stream-json'', ''-p'', PROMPT]"


section \<open>The detector of claude\_loop.py\<close>

text \<open>The conversion of the matched hour to the 24-hour clock.\<close>

definition to_24h :: "int \<Rightarrow> string \<Rightarrow> int" where
  "to_24h h am_pm =
     (if am_pm = ''pm'' \<and> h \<noteq> 12 then h + 12
      else if am_pm = ''am'' \<and> h = 12 then 0
      else h)"

text \<open>\<^verbatim>\<open>a <= b\<close> on two naive \<^verbatim>\<open>datetime\<close> values: the order of their fields, the most
  significant first.\<close>

fun lex_le :: "int list \<Rightarrow> int list \<Rightarrow> bool" where
  "lex_le [] ys = True"
| "lex_le (x # xs) [] = False"
| "lex_le (x # xs) (y # ys) = (x < y \<or> (x = y \<and> lex_le xs ys))"

definition datetime_le :: "datetime \<Rightarrow> datetime \<Rightarrow> bool" where
  "datetime_le a b =
     lex_le [year a, month a, day a, hour a, minute a, second a, microsecond a]
            [year b, month b, day b, hour b, minute b, second b, microsecond b]"

text \<open>
  What follows a match of the clock pattern, with \<open>now\<close> the value of
  \<^verbatim>\<open>datetime.now()\<close>. \<^verbatim>\<open>now.replace(hour=h, ...)\<close> raises \<^verbatim>\<open>ValueError\<close> unless \<open>h\<close> is in
  \<open>0..23\<close>. The file imports \<^verbatim>\<open>datetime\<close> from the \<^verbatim>\<open>datetime\<close> module and nothing else of
  it, so evaluating the name \<^verbatim>\<open>timedelta\<close> raises \<^verbatim>\<open>NameError\<close>.
\<close>

definition clock_reset :: "runtime \<Rightarrow> datetime \<Rightarrow> string \<times> string \<Rightarrow> py_exc + int" where
  "clock_reset rt now reset_match =
     (case py_int rt (fst reset_match) of
        Inl e \<Rightarrow> Inl e
      | Inr h \<Rightarrow>
          (let h24 = to_24h h (snd reset_match)
           in if h24 < 0 \<or> 23 < h24 then Inl ValueError
              else (let reset_today = now\<lparr>hour := h24, minute := 0, second := 0, microsecond := 0\<rparr>
                    in if datetime_le reset_today now then Inl NameError
                       else Inr (local_timestamp rt reset_today))))"

text \<open>\<^verbatim>\<open>for item in content\<close>: a list gives its elements, a dict its keys, a str its
  characters; \<^verbatim>\<open>None\<close>, a bool and an int are not iterable.\<close>

fun py_iter :: "json \<Rightarrow> py_exc + json list" where
  "py_iter (JArray xs) = Inr xs"
| "py_iter (JObject kvs) = Inr (map (\<lambda>kv. JString (fst kv)) kvs)"
| "py_iter (JString s) = Inr (map (\<lambda>c. JString [c]) s)"
| "py_iter v = Inl TypeError"

text \<open>The loop over the content items of an assistant record; \<open>Inr None\<close> is the loop
  running to its end.\<close>

fun scan_content :: "runtime \<Rightarrow> datetime \<Rightarrow> json list \<Rightarrow> py_exc + int option" where
  "scan_content rt now [] = Inr None"
| "scan_content rt now (item # items) =
     (case py_get item ''type'' JNull of
        Inl e \<Rightarrow> Inl e
      | Inr ty \<Rightarrow>
          if ty = JString ''text''
          then (case py_get item ''text'' (JString []) of
                  Inl e \<Rightarrow> Inl e
                | Inr (JString txt) \<Rightarrow>
                    if LOOP_RATE_LIMIT_MSG txt
                    then (case RESET_TIME_PATTERN txt of
                            Some reset_match \<Rightarrow>
                              (case clock_reset rt now reset_match of
                                 Inl e \<Rightarrow> Inl e
                               | Inr n \<Rightarrow> Inr (Some n))
                          | None \<Rightarrow> scan_content rt now items)
                    else scan_content rt now items
                | Inr v \<Rightarrow> Inl TypeError)
          else scan_content rt now items)"

fun loop_reset_epoch_of :: "runtime \<Rightarrow> datetime \<Rightarrow> json \<Rightarrow> py_exc + int option" where
  "loop_reset_epoch_of rt now (JObject kvs) =
     (if truthy (dict_get kvs ''is_error'' JNull) \<and> map_of kvs ''result'' \<noteq> None
      then (case dict_get kvs ''result'' JNull of
              JString result \<Rightarrow>
                if LOOP_RATE_LIMIT_MSG result
                then (case RESET_TIME_PATTERN result of
                        Some reset_match \<Rightarrow>
                          (case clock_reset rt now reset_match of
                             Inl e \<Rightarrow> Inl e
                           | Inr n \<Rightarrow> Inr (Some n))
                      | None \<Rightarrow>
                          if CHR ''|'' \<in> set result
                          then (case after_first CHR ''|'' result of
                                  Inl e \<Rightarrow> Inl e
                                | Inr rest \<Rightarrow>
                                    (case py_int rt (py_strip rest) of
                                       Inl e \<Rightarrow> Inl e
                                     | Inr n \<Rightarrow> Inr (Some n)))
                          else Inr None)
                else Inr None
            | v \<Rightarrow> Inl TypeError)
      else if dict_get kvs ''type'' JNull = JString ''assistant''
      then (case py_get (dict_get kvs ''message'' (JObject [])) ''content'' (JArray []) of
              Inl e \<Rightarrow> Inl e
            | Inr content \<Rightarrow>
                (case py_iter content of
                   Inl e \<Rightarrow> Inl e
                 | Inr items \<Rightarrow> scan_content rt now items))
      else Inr None)"
| "loop_reset_epoch_of rt now v = Inl AttributeError"

text \<open>\<^verbatim>\<open>rate_limit_reset_epoch\<close> of claude\_loop.py.\<close>

definition loop_rate_limit_reset_epoch ::
  "runtime \<Rightarrow> datetime \<Rightarrow> string \<Rightarrow> py_exc + int option" where
  "loop_rate_limit_reset_epoch rt now raw_json =
     (if raw_json = [] then Inr None
      else case (case json_loads rt (py_strip raw_json) of
                   Inl e \<Rightarrow> Inl e
                 | Inr data \<Rightarrow> loop_reset_epoch_of rt now data) of
             Inl e \<Rightarrow> if epoch_handler e then Inr None else Inl e
           | Inr r \<Rightarrow> Inr r)"

section \<open>The record classifier of claude\_loop.py\<close>

text \<open>The truncation of a text preview, written twice in \<^verbatim>\<open>extract_summary_with_jq\<close>
  (once on the jq path, once on the fallback path), character for character the
  same.\<close>

definition truncate_text :: "string \<Rightarrow> string" where
  "truncate_text txt =
     (if 120 < length txt
      then (let truncated = take 120 txt;
                last_space = py_rfind truncated CHR '' ''
            in if 100 < last_space then take (nat last_space) truncated @ ''...''
               else truncated @ ''...'')
      else txt)"

text \<open>
  The three markers that start a summary (each with the blanks that follow it) are
  literals outside ASCII; they are parameters. \<open>py_format\<close> is the interpolation \<^verbatim>\<open>{v}\<close> of an f-string.
\<close>

record markers =
  robot :: string
  tool :: string
  system :: string

definition py_format :: "runtime \<Rightarrow> json \<Rightarrow> string" where
  "py_format rt v = (case v of JString s \<Rightarrow> s | _ \<Rightarrow> str_of rt v)"

text \<open>
  \<^verbatim>\<open>len(text) > 120\<close>, the slice, \<^verbatim>\<open>rfind\<close> and the interpolation, for whatever value the
  text field holds: a str is truncated; a list or dict of at most 120 elements is
  interpolated as it is, a longer list has no \<^verbatim>\<open>rfind\<close> and a longer dict cannot be
  sliced; \<^verbatim>\<open>None\<close>, a bool and an int have no \<^verbatim>\<open>len\<close>.
\<close>

fun preview :: "runtime \<Rightarrow> json \<Rightarrow> py_exc + string" where
  "preview rt (JString txt) = Inr (truncate_text txt)"
| "preview rt (JArray xs) =
     (if 120 < length xs then Inl AttributeError else Inr (str_of rt (JArray xs)))"
| "preview rt (JObject kvs) =
     (if 120 < length kvs then Inl TypeError else Inr (str_of rt (JObject kvs)))"
| "preview rt v = Inl TypeError"

text \<open>The jq path once \<^verbatim>\<open>fields\<close> is decoded.\<close>

fun summary_of_fields :: "runtime \<Rightarrow> markers \<Rightarrow> json \<Rightarrow> py_exc + string option" where
  "summary_of_fields rt mk (JObject fs) =
     (let msg_type = dict_get fs ''type'' JNull
      in if msg_type = JString ''assistant''
         then (let message_type = dict_get fs ''message_type'' JNull;
                   has_both = dict_get fs ''has_both'' (JBool False)
               in if message_type = JString ''text''
                  then (case preview rt (dict_get fs ''text_preview'' (JString [])) of
                          Inl e \<Rightarrow> Inl e
                        | Inr shown \<Rightarrow> Inr (Some (robot mk @ shown)))
                  else if message_type = JString ''tool_use''
                  then (if \<not> truthy has_both
                        then Inr (Some (tool mk
                                        @ py_format rt (dict_get fs ''tool_name'' (JString ''unknown''))))
                        else Inr None)
                  else Inr (Some (robot mk @ ''Assistant message'')))
         else if msg_type = JString ''user'' then Inr None
         else if msg_type = JString ''system''
         then (let subtype = dict_get fs ''subtype'' (JString ''unknown'');
                   c = dict_get fs ''tools_count'' (JInt 0);
                   tools_count = (if truthy c then c else JInt 0)
               in Inr (Some (system mk @ ''System '' @ py_format rt subtype @ '' | ''
                             @ py_format rt tools_count @ '' tools'')))
         else Inr None)"
| "summary_of_fields rt mk v = Inl AttributeError"

text \<open>\<^verbatim>\<open>len(v)\<close> and \<^verbatim>\<open>v[0]\<close> on a decoded value.\<close>

fun py_len :: "json \<Rightarrow> py_exc + nat" where
  "py_len (JString s) = Inr (length s)"
| "py_len (JArray xs) = Inr (length xs)"
| "py_len (JObject kvs) = Inr (length kvs)"
| "py_len v = Inl TypeError"

fun py_first :: "json \<Rightarrow> py_exc + json" where
  "py_first (JArray []) = Inl IndexError"
| "py_first (JArray (x # xs)) = Inr x"
| "py_first (JString []) = Inl IndexError"
| "py_first (JString (c # cs)) = Inr (JString [c])"
| "py_first (JObject kvs) = Inl KeyError"
| "py_first v = Inl TypeError"

text \<open>The fallback path once the line is decoded (the body of the inner \<^verbatim>\<open>try\<close>).\<close>

definition assistant_summary :: "runtime \<Rightarrow> markers \<Rightarrow> json \<Rightarrow> py_exc + string option" where
  "assistant_summary rt mk content =
     (if \<not> truthy content then Inr None
      else case py_len content of
             Inl e \<Rightarrow> Inl e
           | Inr n \<Rightarrow>
               if \<not> 0 < n then Inr None
               else (case py_first content of
                       Inl e \<Rightarrow> Inl e
                     | Inr first_content \<Rightarrow>
                         (case py_get first_content ''type'' JNull of
                            Inl e \<Rightarrow> Inl e
                          | Inr ty \<Rightarrow>
                              if ty = JString ''text''
                              then (case py_get first_content ''text'' (JString []) of
                                      Inl e \<Rightarrow> Inl e
                                    | Inr v \<Rightarrow>
                                        (case preview rt v of
                                           Inl e \<Rightarrow> Inl e
                                         | Inr shown \<Rightarrow> Inr (Some (robot mk @ shown))))
                              else if ty = JString ''tool_use''
                              then (case py_get first_content ''name'' (JString ''unknown'') of
                                      Inl e \<Rightarrow> Inl e
                                    | Inr tool_name \<Rightarrow>
                                        if n = 1 then Inr (Some (tool mk @ py_format rt tool_name))
                                        else Inr None)
                              else Inr None)))"

fun fallback_summary :: "runtime \<Rightarrow> markers \<Rightarrow> json \<Rightarrow> py_exc + string option" where
  "fallback_summary rt mk (JObject data) =
     (let msg_type = dict_get data ''type'' (JString ''unknown'')
      in if msg_type = JString ''assistant''
         then (case py_get (dict_get data ''message'' (JObject [])) ''content'' (JArray []) of
                 Inl e \<Rightarrow> Inl e
               | Inr content \<Rightarrow> assistant_summary rt mk content)
         else if msg_type = JString ''user'' then Inr None
         else if msg_type = JString ''system''
         then (case py_len (dict_get data ''tools'' (JArray [])) of
                 Inl e \<Rightarrow> Inl e
               | Inr tools_count \<Rightarrow>
                   Inr (Some (system mk @ ''System ''
                              @ py_format rt (dict_get data ''subtype'' (JString ''unknown''))
                              @ '' | '' @ str_of rt (JInt (int tools_count)) @ '' tools'')))
         else Inr None)"
| "fallback_summary rt mk v = Inl AttributeError"

text \<open>
  One run of the external \<^verbatim>\<open>jq\<close>: either \<^verbatim>\<open>Popen\<close> or \<^verbatim>\<open>communicate\<close> raised (jq is
  not installed, the two-second timeout passed), or the process ended with a return
  code and its standard output.
\<close>

datatype process_result = Raised py_exc | Exited int string

text \<open>
  \<^verbatim>\<open>extract_summary_with_jq\<close>. \<open>validated\<close> and \<open>extracted\<close> are the two runs of jq on the
  line. The outer handler catches every \<^verbatim>\<open>Exception\<close> and runs the fallback, whose
  own bare \<^verbatim>\<open>except\<close> turns every exception into \<^verbatim>\<open>None\<close>.
\<close>

definition jq_summary ::
  "runtime \<Rightarrow> markers \<Rightarrow> process_result \<Rightarrow> process_result \<Rightarrow> py_exc + string option" where
  "jq_summary rt mk validated extracted =
     (case validated of
        Raised e \<Rightarrow> Inl e
      | Exited returncode validated_json \<Rightarrow>
          if returncode \<noteq> 0 then Inr None
          else (case extracted of
                  Raised e \<Rightarrow> Inl e
                | Exited returncode' fields_output \<Rightarrow>
                    if returncode' = 0
                    then (case json_loads rt fields_output of
                            Inl e \<Rightarrow> Inl e
                          | Inr fs \<Rightarrow> summary_of_fields rt mk fs)
                    else Inr None))"

definition extract_summary_with_jq ::
  "runtime \<Rightarrow> markers \<Rightarrow> process_result \<Rightarrow> process_result \<Rightarrow> string \<Rightarrow> string option" where
  "extract_summary_with_jq rt mk validated extracted json_line =
     (if py_strip json_line = [] then None
      else case jq_summary rt mk validated extracted of
             Inr summary \<Rightarrow> summary
           | Inl e \<Rightarrow>
               (case (case json_loads rt (py_strip json_line) of
                        Inl e' \<Rightarrow> Inl e'
                      | Inr data \<Rightarrow> fallback_summary rt mk data) of
                  Inr summary \<Rightarrow> summary
                | Inl e' \<Rightarrow> None))"


section \<open>The supervisor loops\<close>

text \<open>
  \<^verbatim>\<open>last_json_line\<close> (the same in the three files) on the content of the log file,
  \<open>None\<close> when the file does not exist. The source reads the file backwards one
  character at a time: a line feed met while the buffer is empty is skipped, a line
  feed met later ends the scan, every other character is appended to the buffer,
  which is reversed at the end. (\<^verbatim>\<open>fp.tell() - 1\<close> after reading one character at \<^verbatim>\<open>pos\<close>
  is \<^verbatim>\<open>pos\<close>, so the first test of the source reduces to the buffer being empty.)
  \<open>scan_back\<close> takes the characters in the order the loop visits them.
\<close>

fun scan_back :: "string \<Rightarrow> string \<Rightarrow> string" where
  "scan_back [] buf = buf"
| "scan_back (c # cs) buf =
     (if c = CHR 0x0A then (if buf = [] then scan_back cs buf else buf)
      else scan_back cs (buf @ [c]))"

definition last_json_line :: "string option \<Rightarrow> string" where
  "last_json_line file =
     (case file of None \<Rightarrow> [] | Some content \<Rightarrow> rev (scan_back (rev content) []))"

text \<open>
  What a supervisor does that the claims speak of is a sequence of events: spawning
  the child with a command line, and sleeping for a number of seconds. An iteration
  ends in one of four ways: the loop goes on, it stops because completion was
  detected, it stops because of \<^verbatim>\<open>--single\<close>, or an exception leaves \<^verbatim>\<open>main\<close>.
\<close>

datatype event = Spawn "string list" | Sleep int

datatype outcome = Continue | Completed | SingleIteration | Crashed py_exc

text \<open>One run of the child as the supervisor sees it: the lines of its output stream
  (each with its line end), and the readings of \<^verbatim>\<open>int(time.time())\<close> and
  \<^verbatim>\<open>datetime.now()\<close> taken after it.\<close>

record child_run =
  run_output :: "string list"
  run_clock :: int
  run_now :: datetime

record supervisor =
  continue_next :: bool
  stats :: StatsTracker
  log_file :: string

text \<open>A trace in which every spawn but the first event comes right after a sleep of
  60 seconds.\<close>

fun is_spawn :: "event \<Rightarrow> bool" where
  "is_spawn (Spawn cmd) = True"
| "is_spawn (Sleep n) = False"

fun cooled :: "event list \<Rightarrow> bool" where
  "cooled [] = True"
| "cooled [e] = True"
| "cooled (e # e' # es) = ((is_spawn e' \<longrightarrow> e = Sleep 60) \<and> cooled (e' # es))"

text \<open>
  \<^verbatim>\<open>main\<close> of maker.py and of fixer.py from \<^verbatim>\<open>continue_next = False\<close> to the end of the loop
  body, given the last line of the log. The two files differ in the completion test
  only (\<^verbatim>\<open>is_done\<close>, \<^verbatim>\<open>is_actually_working\<close>), the parameter \<open>completed\<close>. The result is
  the sleeps, the new \<^verbatim>\<open>continue_next\<close> and how the iteration ends.
\<close>

definition after_exit ::
  "(runtime \<Rightarrow> string \<Rightarrow> py_exc + bool) \<Rightarrow> runtime \<Rightarrow> bool \<Rightarrow> int \<Rightarrow> string
   \<Rightarrow> event list \<times> bool \<times> outcome" where
  "after_exit completed rt single_iteration current_epoch last_line =
     (case completed rt last_line of
        Inl e \<Rightarrow> ([], False, Crashed e)
      | Inr True \<Rightarrow> ([], False, Completed)
      | Inr False \<Rightarrow>
          (case rate_limit_reset_epoch rt last_line of
             Inl e \<Rightarrow> ([], False, Crashed e)
           | Inr None \<Rightarrow>
               if single_iteration then ([], False, SingleIteration)
               else ([Sleep 60], False, Continue)
           | Inr (Some reset_epoch) \<Rightarrow>
               (let sleep_seconds = max 0 (reset_epoch - current_epoch)
                in case fromtimestamp_raises rt reset_epoch of
                     Some e \<Rightarrow> ([], True, Crashed e)
                   | None \<Rightarrow>
                       (case sleep_raises rt sleep_seconds of
                          Some e \<Rightarrow> ([], True, Crashed e)
                        | None \<Rightarrow>
                            if single_iteration
                            then ([Sleep sleep_seconds], True, SingleIteration)
                            else ([Sleep sleep_seconds, Sleep 60], True, Continue)))))"

text \<open>
  One pass through the loop body: the counter, the spawn, the output appended to
  the log, the usage of every stripped line, then \<open>after_exit\<close>. The model is of a run
  in which the child was started and its output read and logged. The status lines
  that \<^verbatim>\<open>main\<close> prints are left out, and with them \<^verbatim>\<open>get_stats\<close>, whose float
  arithmetic is taken to succeed.
\<close>

definition iteration ::
  "(runtime \<Rightarrow> string \<Rightarrow> py_exc + bool) \<Rightarrow> string \<Rightarrow> runtime \<Rightarrow> bool \<Rightarrow> supervisor \<Rightarrow> child_run
   \<Rightarrow> supervisor \<times> event list \<times> outcome" where
  "iteration completed PROMPT rt single_iteration sv run =
     (let counted = (stats sv)\<lparr>iterations := iterations (stats sv) + 1\<rparr>;
          cmd = claude_cmd PROMPT (continue_next sv);
          logged = log_file sv @ concat (run_output run)
      in case feed_usage rt counted (map py_strip (run_output run)) of
           (st, Some e) \<Rightarrow>
             (\<lparr>continue_next = continue_next sv, stats = st, log_file = logged\<rparr>,
              [Spawn cmd], Crashed e)
         | (st, None) \<Rightarrow>
             (case after_exit completed rt single_iteration (run_clock run)
                     (last_json_line (Some logged)) of
                (sleeps, resume, how) \<Rightarrow>
                  (\<lparr>continue_next = resume, stats = st, log_file = logged\<rparr>,
                   Spawn cmd # sleeps, how)))"

text \<open>\<^verbatim>\<open>while True\<close> over the runs given; when they are used up the loop is still
  running (\<open>Continue\<close>).\<close>

fun main_loop ::
  "(runtime \<Rightarrow> string \<Rightarrow> py_exc + bool) \<Rightarrow> string \<Rightarrow> runtime \<Rightarrow> bool \<Rightarrow> supervisor
   \<Rightarrow> child_run list \<Rightarrow> supervisor \<times> event list \<times> outcome" where
  "main_loop completed PROMPT rt single_iteration sv [] = (sv, [], Continue)"
| "main_loop completed PROMPT rt single_iteration sv (run # runs) =
     (case iteration completed PROMPT rt single_iteration sv run of
        (sv', evs, how) \<Rightarrow>
          if how = Continue
          then (case main_loop completed PROMPT rt single_iteration sv' runs of
                  (sv'', evs', how') \<Rightarrow> (sv'', evs @ evs', how'))
          else (sv', evs, how))"

text \<open>The state \<^verbatim>\<open>main\<close> starts from: \<^verbatim>\<open>continue_next = False\<close>, a fresh
  \<^verbatim>\<open>StatsTracker()\<close>, and whatever the log file already holds.\<close>

definition initial :: "real \<Rightarrow> string \<Rightarrow> supervisor" where
  "initial started logged =
     \<lparr>continue_next = False,
      stats = \<lparr>total_input_tokens = 0, total_output_tokens = 0, total_cache_read_tokens = 0,
               total_cache_write_tokens = 0, iterations = 0, start_time = started\<rparr>,
      log_file = logged\<rparr>"

definition maker_main ::
  "string \<Rightarrow> runtime \<Rightarrow> bool \<Rightarrow> real \<Rightarrow> string \<Rightarrow> child_run list
   \<Rightarrow> supervisor \<times> event list \<times> outcome" where
  "maker_main PROMPT rt single_iteration started logged runs =
     main_loop is_done PROMPT rt single_iteration (initial started logged) runs"

definition fixer_main ::
  "string \<Rightarrow> runtime \<Rightarrow> bool \<Rightarrow> real \<Rightarrow> string \<Rightarrow> child_run list
   \<Rightarrow> supervisor \<times> event list \<times> outcome" where
  "fixer_main PROMPT rt single_iteration started logged runs =
     main_loop is_actually_working PROMPT rt single_iteration (initial started logged) runs"

text \<open>
  \<^verbatim>\<open>main\<close> of claude\_loop.py: no completion test, no usage, no single mode. Its state is
  \<^verbatim>\<open>continue_next\<close> and the log. (The summaries it prints while the child runs are
  display only: \<^verbatim>\<open>extract_summary_with_jq\<close> lets no exception out.)
\<close>

definition loop_after_exit ::
  "runtime \<Rightarrow> datetime \<Rightarrow> int \<Rightarrow> string \<Rightarrow> event list \<times> bool \<times> outcome" where
  "loop_after_exit rt now current_epoch last_line =
     (case loop_rate_limit_reset_epoch rt now last_line of
        Inl e \<Rightarrow> ([], False, Crashed e)
      | Inr None \<Rightarrow> ([Sleep 60], False, Continue)
      | Inr (Some reset_epoch) \<Rightarrow>
          (let sleep_seconds = max 0 (reset_epoch - current_epoch)
           in case fromtimestamp_raises rt reset_epoch of
                Some e \<Rightarrow> ([], True, Crashed e)
              | None \<Rightarrow>
                  (case sleep_raises rt sleep_seconds of
                     Some e \<Rightarrow> ([], True, Crashed e)
                   | None \<Rightarrow> ([Sleep sleep_seconds, Sleep 60], True, Continue))))"

definition loop_iteration ::
  "string \<Rightarrow> runtime \<Rightarrow> bool \<times> string \<Rightarrow> child_run \<Rightarrow> (bool \<times> string) \<times> event list \<times> outcome" where
  "loop_iteration PROMPT rt sv run =
     (let cmd = claude_cmd PROMPT (fst sv);
          logged = snd sv @ concat (run_output run)
      in case loop_after_exit rt (run_now run) (run_clock run) (last_json_line (Some logged)) of
           (sleeps, resume, how) \<Rightarrow> ((resume, logged), Spawn cmd # sleeps, how))"

fun loop_main_from ::
  "string \<Rightarrow> runtime \<Rightarrow> bool \<times> string \<Rightarrow> child_run list
   \<Rightarrow> (bool \<times> string) \<times> event list \<times> outcome" where
  "loop_main_from PROMPT rt sv [] = (sv, [], Continue)"
| "loop_main_from PROMPT rt sv (run # runs) =
     (case loop_iteration PROMPT rt sv run of
        (sv', evs, how) \<Rightarrow>
          if how = Continue
          then (case loop_main_from PROMPT rt sv' runs of
                  (sv'', evs', how') \<Rightarrow> (sv'', evs @ evs', how'))
          else (sv', evs, how))"

definition loop_main ::
  "string \<Rightarrow> runtime \<Rightarrow> string \<Rightarrow> child_run list \<Rightarrow> (bool \<times> string) \<times> event list \<times> outcome" where
  "loop_main PROMPT rt logged runs = loop_main_from PROMPT rt (False, logged) runs"


section \<open>The usage of a record, as the specification describes it\<close>













section \<open>Sample lines\<close>

text \<open>
  The concrete lines the examples below run on, each with the value \<^verbatim>\<open>json.loads\<close>
  gives for it; \<open>sample_runtime\<close> decodes these lines and rejects every other text.
  Its clock conversion is that of a machine whose local time is UTC.
\<close>

definition line_a :: string where
  \<open>line_a = ''{"is_error":true,"result":"Claude limit reached|1700000000"}''\<close>

definition line_b :: string where
  \<open>line_b = ''{"type":"assistant","message":{"content":[{"type":"text","text":"Usage limit reached, resets 3am"}]}}''\<close>

definition line_c :: string where
  \<open>line_c = ''{"result":"DONE: all tasks complete"}''\<close>

definition line_c_padded :: string where
  \<open>line_c_padded = ''{"result":"  done: All Tasks Complete   "}''\<close>

definition line_usage_full :: string where
  \<open>line_usage_full = ''{"type":"assistant","usage":{"input_tokens":10,"output_tokens":5,"cache_read_input_tokens":100,"cache_creation":{"ephemeral_5m_input_tokens":7,"ephemeral_1h_input_tokens":3}}}''\<close>

definition line_usage_partial :: string where
  \<open>line_usage_partial = ''{"type":"user","usage":{"input_tokens":4}}''\<close>

definition line_no_usage :: string where
  \<open>line_no_usage = ''{"type":"system","subtype":"init"}''\<close>

definition line_usage_null :: string where
  \<open>line_usage_null = ''{"usage":null}''\<close>

definition line_count_string :: string where
  \<open>line_count_string = ''{"usage":{"input_tokens":"12"}}''\<close>

definition line_usage_negative :: string where
  \<open>line_usage_negative = ''{"usage":{"input_tokens":-5}}''\<close>

definition line_done_error :: string where
  \<open>line_done_error = ''{"type":"result","is_error":true,"result":"DONE Claude usage limit reached|1700000000"}''\<close>

definition line_working_error :: string where
  \<open>line_working_error = ''{"type":"result","is_error":true,"result":"not ACTUALLY_WORKING yet: Claude usage limit reached|1700000000"}''\<close>

text \<open>Two texts of more than 120 characters: in the first the last space of the
  first 120 characters is at offset 100, in the second at offset 102.\<close>

definition text_space_at_100 :: string where
  "text_space_at_100 = ''Reading the project notes and checking every open task before starting the next round of the porting src/pydoll-cpp/browser/connect!''"

definition text_space_at_102 :: string where
  "text_space_at_102 = ''Reading the project notes and checking every open task before starting the next round of the port work src/pydoll/connection_handler.cpp and more''"

definition line_text_100 :: string where
  \<open>line_text_100 =
     ''{"type":"assistant","message":{"content":[{"type":"text","text":"'' @ text_space_at_100
     @ ''"}]}}''\<close>

definition line_text_102 :: string where
  \<open>line_text_102 =
     ''{"type":"assistant","message":{"content":[{"type":"text","text":"'' @ text_space_at_102
     @ ''"}]}}''\<close>

definition sample_lines :: "(string \<times> json) list" where
  "sample_lines =
     [(line_a, JObject [(''is_error'', JBool True),
                        (''result'', JString ''Claude limit reached|1700000000'')]),
      (line_b, JObject [(''type'', JString ''assistant''),
                        (''message'', JObject [(''content'',
                           JArray [JObject [(''type'', JString ''text''),
                                            (''text'', JString ''Usage limit reached, resets 3am'')]])])]),
      (line_c, JObject [(''result'', JString ''DONE: all tasks complete'')]),
      (line_c_padded, JObject [(''result'', JString ''  done: All Tasks Complete   '')]),
      (line_usage_full,
         JObject [(''type'', JString ''assistant''),
                  (''usage'', JObject [(''input_tokens'', JInt 10), (''output_tokens'', JInt 5),
                                      (''cache_read_input_tokens'', JInt 100),
                                      (''cache_creation'',
                                         JObject [(''ephemeral_5m_input_tokens'', JInt 7),
                                                  (''ephemeral_1h_input_tokens'', JInt 3)])])]),
      (line_usage_partial,
         JObject [(''type'', JString ''user''), (''usage'', JObject [(''input_tokens'', JInt 4)])]),
      (line_no_usage, JObject [(''type'', JString ''system''), (''subtype'', JString ''init'')]),
      (line_usage_null, JObject [(''usage'', JNull)]),
      (line_count_string, JObject [(''usage'', JObject [(''input_tokens'', JString ''12'')])]),
      (line_usage_negative, JObject [(''usage'', JObject [(''input_tokens'', JInt (- 5))])]),
      (line_done_error,
         JObject [(''type'', JString ''result''), (''is_error'', JBool True),
                  (''result'', JString ''DONE Claude usage limit reached|1700000000'')]),
      (line_working_error,
         JObject [(''type'', JString ''result''), (''is_error'', JBool True),
                  (''result'',
                   JString ''not ACTUALLY_WORKING yet: Claude usage limit reached|1700000000'')]),
      (line_text_100,
         JObject [(''type'', JString ''assistant''),
                  (''message'', JObject [(''content'',
                     JArray [JObject [(''type'', JString ''text''),
                                      (''text'', JString text_space_at_100)]])])]),
      (line_text_102,
         JObject [(''type'', JString ''assistant''),
                  (''message'', JObject [(''content'',
                     JArray [JObject [(''type'', JString ''text''),
                                      (''text'', JString text_space_at_102)]])])])]"

definition sample_loads :: "string \<Rightarrow> py_exc + json" where
  "sample_loads s = (case map_of sample_lines s of Some v \<Rightarrow> Inr v | None \<Rightarrow> Inl JSONDecodeError)"

text \<open>Days from 1970-01-01 to a date of the Gregorian calendar, and the epoch of a
  UTC date and time.\<close>

definition days_from_civil :: "int \<Rightarrow> int \<Rightarrow> int \<Rightarrow> int" where
  "days_from_civil y m d =
     (let y' = (if m \<le> 2 then y - 1 else y);
          era = y' div 400;
          yoe = y' - era * 400;
          doy = (153 * (if 2 < m then m - 3 else m + 9) + 2) div 5 + d - 1;
          doe = yoe * 365 + yoe div 4 - yoe div 100 + doy
      in era * 146097 + doe - 719468)"

definition utc_timestamp :: "datetime \<Rightarrow> int" where
  "utc_timestamp t =
     days_from_civil (year t) (month t) (day t) * 86400
     + hour t * 3600 + minute t * 60 + second t"

definition sample_runtime :: runtime where
  "sample_runtime =
     \<lparr>json_loads = sample_loads, int_max_str_digits = 4300, str_of = (\<lambda>v. ''?''),
      local_timestamp = utc_timestamp, fromtimestamp_raises = (\<lambda>n. None),
      sleep_raises = (\<lambda>n. None)\<rparr>"

text \<open>05:00 and 01:00 on 15 January 2024.\<close>

definition five_oclock :: datetime where
  "five_oclock = \<lparr>year = 2024, month = 1, day = 15, hour = 5, minute = 0, second = 0,
                   microsecond = 0\<rparr>"

definition one_oclock :: datetime where
  "one_oclock = \<lparr>year = 2024, month = 1, day = 15, hour = 1, minute = 0, second = 0,
                  microsecond = 0\<rparr>"

text \<open>ASCII stand-ins for the three markers.\<close>

definition sample_markers :: markers where
  "sample_markers = \<lparr>robot = ''[robot] '', tool = ''[tool] '', system = ''[system]  ''\<rparr>"

text \<open>Two runs of the child: one whose last line is the rate-limit record
  \<open>line_a\<close>, read 1000 seconds before the reset, and one that ends on a plain system
  record; and a short stand-in for the instruction text.\<close>

definition run_rate_limited :: child_run where
  "run_rate_limited =
     \<lparr>run_output = [line_no_usage @ [CHR 0x0A], line_a @ [CHR 0x0A]],
      run_clock = 1699999000, run_now = five_oclock\<rparr>"

definition run_plain :: child_run where
  "run_plain =
     \<lparr>run_output = [line_usage_partial @ [CHR 0x0A], line_no_usage @ [CHR 0x0A]],
      run_clock = 1700000100, run_now = five_oclock\<rparr>"

definition run_done_error :: child_run where
  "run_done_error =
     \<lparr>run_output = [line_usage_partial @ [CHR 0x0A], line_done_error @ [CHR 0x0A]],
      run_clock = 1699999000, run_now = five_oclock\<rparr>"

definition run_working_error :: child_run where
  "run_working_error =
     \<lparr>run_output = [line_usage_partial @ [CHR 0x0A], line_working_error @ [CHR 0x0A]],
      run_clock = 1699999000, run_now = five_oclock\<rparr>"

definition sample_prompt :: string where
  "sample_prompt = ''Read @PRD.md and @README.md first.''"

definition fresh_tracker :: StatsTracker where
  "fresh_tracker =
     \<lparr>total_input_tokens = 0, total_output_tokens = 0, total_cache_read_tokens = 0,
      total_cache_write_tokens = 0, iterations = 0, start_time = 0\<rparr>"



section \<open>Properties of the usage accumulator\<close>













subsection \<open>The totals never decrease when no count is negative\<close>














lemma sample_loads_usage:
  "json_loads sample_runtime (py_strip line_usage_negative)
     = Inr (JObject [(''usage'', JObject [(''input_tokens'', JInt (- 5))])])"
  "json_loads sample_runtime (py_strip line_usage_null) = Inr (JObject [(''usage'', JNull)])"
  "json_loads sample_runtime (py_strip line_count_string)
     = Inr (JObject [(''usage'', JObject [(''input_tokens'', JString ''12'')])])"
  "json_loads sample_runtime (py_strip line_usage_partial)
     = Inr (JObject [(''type'', JString ''user''), (''usage'', JObject [(''input_tokens'', JInt 4)])])"
  by (simp_all add: sample_runtime_def sample_loads_def sample_lines_def py_strip_def
      is_space_def line_a_def line_b_def line_c_def line_c_padded_def line_usage_full_def
      line_usage_partial_def line_no_usage_def line_usage_null_def line_count_string_def
      line_usage_negative_def)

lemma sample_nonempty:
  "line_a \<noteq> []" "line_b \<noteq> []" "line_c \<noteq> []" "line_c_padded \<noteq> []"
  "line_usage_full \<noteq> []" "line_usage_partial \<noteq> []" "line_no_usage \<noteq> []"
  "line_usage_null \<noteq> []" "line_count_string \<noteq> []" "line_usage_negative \<noteq> []"
  "line_done_error \<noteq> []" "line_working_error \<noteq> []"
  by (simp_all add: line_a_def line_b_def line_c_def line_c_padded_def line_usage_full_def
      line_usage_partial_def line_no_usage_def line_usage_null_def line_count_string_def
      line_usage_negative_def line_done_error_def line_working_error_def)



text \<open>
  Claim C2 (the code does not do this). On the line \<^verbatim>\<open>{"usage":null}\<close> the call
  \<^verbatim>\<open>usage.get\<close> raises \<^verbatim>\<open>AttributeError\<close>, and on \<^verbatim>\<open>{"usage":{"input_tokens":"12"}}\<close> the
  addition raises \<^verbatim>\<open>TypeError\<close>; the handler names neither class, so the exception
  leaves \<^verbatim>\<open>parse_usage_from_json\<close>.
\<close>

theorem usage_exception_escapes:
  "parse_usage_from_json sample_runtime fresh_tracker line_usage_null
     = (fresh_tracker, Some AttributeError)
   \<and> parse_usage_from_json sample_runtime fresh_tracker line_count_string
     = (fresh_tracker, Some TypeError)"
  by (simp add: parse_usage_from_json_def sample_loads_usage sample_nonempty
        usage_statements_def add_input_def add_output_def
        add_cache_read_def add_cache_write_def add_field_def usage_handler_def)

section \<open>The epoch after the pipe\<close>













lemma sample_int: "py_int sample_runtime ''1700000000'' = Inr 1700000000"
  by (simp add: py_int_def c_strip_def sample_runtime_def int_body_def is_digit_def
      digit_val_def is_c_space_def)

lemma sample_a_matches:
  "RATE_LIMIT_MSG ''Claude limit reached|1700000000''"
  "LOOP_RATE_LIMIT_MSG ''Claude limit reached|1700000000''"
  "RESET_TIME_PATTERN ''Claude limit reached|1700000000'' = None"
  by (simp_all add: RATE_LIMIT_MSG_def LOOP_RATE_LIMIT_MSG_def RESET_TIME_PATTERN_def
      py_lower_def to_lower_def claude_limit_at_def word_then_reach_def limit_reached_at_def
      resets_at_def is_space_def)


section \<open>Completion detection\<close>

lemma startswith_prefix: "startswith s p = prefix p s"
  by (induction s p rule: startswith.induct) auto

lemma py_contains_sublist: "py_contains p s = sublist p s"
  by (induction s) (auto simp: startswith_prefix sublist_Cons_right)











section \<open>The matchers accept what the patterns describe\<close>

lemma some_suffix_iff: "some_suffix P s = (\<exists>a b. s = a @ b \<and> P b)"
proof (induction s)
  case Nil
  then show ?case by simp
next
  case (Cons c cs)
  note IH = Cons.IH
  show ?case
  proof
    assume "some_suffix P (c # cs)"
    then have "P (c # cs) \<or> some_suffix P cs" by (simp split: if_splits)
    then show "\<exists>a b. c # cs = a @ b \<and> P b"
    proof
      assume "P (c # cs)"
      then have "c # cs = [] @ (c # cs) \<and> P (c # cs)" by simp
      then show ?thesis by blast
    next
      assume "some_suffix P cs"
      with IH obtain a b where "cs = a @ b" "P b" by blast
      then have "c # cs = (c # a) @ b \<and> P b" by simp
      then show ?thesis by blast
    qed
  next
    assume "\<exists>a b. c # cs = a @ b \<and> P b"
    then obtain a b where ab: "c # cs = a @ b" "P b" by blast
    show "some_suffix P (c # cs)"
    proof (cases a)
      case Nil
      with ab have "P (c # cs)" by simp
      then show ?thesis by simp
    next
      case (Cons x xs)
      with ab have "cs = xs @ b" by simp
      with ab(2) IH have "some_suffix P cs" by blast
      then show ?thesis by simp
    qed
  qed
qed

lemma startswith_iff: "startswith s p = (\<exists>r. s = p @ r)"
  by (simp add: startswith_prefix prefix_def)

lemma py_contains_iff: "py_contains p s = (\<exists>a b. s = a @ p @ b)"
  by (simp add: py_contains_sublist sublist_def)

lemma limit_reached_at_iff:
  "limit_reached_at s
     = (\<exists>ws b. s = ''limit'' @ ws @ ''reached'' @ b \<and> ws \<noteq> [] \<and> (\<forall>c\<in>set ws. is_space c))"
proof
  assume a: "limit_reached_at s"
  then obtain r where r: "s = ''limit'' @ r"
    by (auto simp: limit_reached_at_def startswith_iff split: if_splits)
  with a obtain c cs where cs: "r = c # cs" "is_space c"
    "startswith (dropWhile is_space cs) ''reached''"
    by (auto simp: limit_reached_at_def split: if_splits list.splits)
  then obtain b where b: "dropWhile is_space cs = ''reached'' @ b"
    by (auto simp: startswith_iff)
  have "cs = takeWhile is_space cs @ dropWhile is_space cs" by simp
  with b have "cs = takeWhile is_space cs @ ''reached'' @ b" by simp
  with r cs have "s = ''limit'' @ (c # takeWhile is_space cs) @ ''reached'' @ b" by simp
  moreover have "\<forall>x\<in>set (c # takeWhile is_space cs). is_space x"
    using cs(2) by (auto dest: set_takeWhileD)
  ultimately show "\<exists>ws b. s = ''limit'' @ ws @ ''reached'' @ b \<and> ws \<noteq> [] \<and> (\<forall>c\<in>set ws. is_space c)"
    by blast
next
  assume "\<exists>ws b. s = ''limit'' @ ws @ ''reached'' @ b \<and> ws \<noteq> [] \<and> (\<forall>c\<in>set ws. is_space c)"
  then obtain ws b where w: "s = ''limit'' @ ws @ ''reached'' @ b" "ws \<noteq> []" "\<forall>c\<in>set ws. is_space c"
    by blast
  then obtain c cs where c: "ws = c # cs" by (cases ws) auto
  have "dropWhile is_space (cs @ ''reached'' @ b) = dropWhile is_space (''reached'' @ b)"
    by (rule dropWhile_append2) (use w(3) c in simp)
  also have "\<dots> = ''reached'' @ b" by (simp add: is_space_def)
  finally have "startswith (dropWhile is_space (cs @ ''reached'' @ b)) ''reached''"
    by (simp add: startswith_iff)
  with w c show "limit_reached_at s"
    by (simp add: limit_reached_at_def)
qed

text \<open>\<^verbatim>\<open>limit\s+reached\<close>, ignoring case: somewhere in the lower-cased subject stands
  \<^verbatim>\<open>limit\<close>, then one or more white-space characters, then \<^verbatim>\<open>reached\<close>.\<close>

lemma LOOP_RATE_LIMIT_MSG_iff:
  "LOOP_RATE_LIMIT_MSG s
     = (\<exists>a ws b. py_lower s = a @ ''limit'' @ ws @ ''reached'' @ b
                 \<and> ws \<noteq> [] \<and> (\<forall>c\<in>set ws. is_space c))"
  unfolding LOOP_RATE_LIMIT_MSG_def some_suffix_iff limit_reached_at_iff by blast

lemma word_then_reach_iff:
  "word_then_reach s
     = (\<exists>w n b. s = w @ n @ ''reach'' @ b \<and> w \<in> {''usage'', ''use'', ''limit''})"
proof -
  have 1: "(startswith s w \<and> py_contains ''reach'' (drop (length w) s))
              = (\<exists>n b. s = w @ n @ ''reach'' @ b)" for w
  proof
    assume a: "startswith s w \<and> py_contains ''reach'' (drop (length w) s)"
    then obtain r where r: "s = w @ r" unfolding startswith_iff by blast
    then have "drop (length w) s = r" by simp
    with a have "py_contains ''reach'' r" by simp
    then obtain n b where "r = n @ ''reach'' @ b" unfolding py_contains_iff by blast
    with r show "\<exists>n b. s = w @ n @ ''reach'' @ b" by blast
  next
    assume "\<exists>n b. s = w @ n @ ''reach'' @ b"
    then obtain n b where s: "s = w @ n @ ''reach'' @ b" by blast
    then have p: "startswith s w" unfolding startswith_iff by blast
    have d: "drop (length w) s = n @ ''reach'' @ b"
      by (metis append_eq_conv_conj s)
    have "py_contains ''reach'' (drop (length w) s)"
      unfolding py_contains_iff d by blast
    with p show "startswith s w \<and> py_contains ''reach'' (drop (length w) s)" by blast
  qed
  have "word_then_reach s
      = (\<exists>w\<in>{''usage'', ''use'', ''limit''}.
            startswith s w \<and> py_contains ''reach'' (drop (length w) s))"
    unfolding word_then_reach_def by (simp del: startswith.simps py_contains.simps)
  also have "\<dots> = (\<exists>w\<in>{''usage'', ''use'', ''limit''}. \<exists>n b. s = w @ n @ ''reach'' @ b)"
    by (simp only: 1)
  finally show ?thesis by blast
qed

lemma takeWhile_line:
  "CHR 0x0A \<notin> set xs \<Longrightarrow>
   takeWhile (\<lambda>c. c \<noteq> CHR 0x0A) (xs @ ys) = xs @ takeWhile (\<lambda>c. c \<noteq> CHR 0x0A) ys"
  by (induction xs) auto

lemma line_has_no_feed: "CHR 0x0A \<notin> set (takeWhile (\<lambda>c. c \<noteq> CHR 0x0A) s)"
  by (auto dest: set_takeWhileD)

lemma claude_limit_at_iff:
  "claude_limit_at s
     = (\<exists>m w n b. s = ''claude'' @ m @ w @ n @ ''reach'' @ b
                  \<and> w \<in> {''usage'', ''use'', ''limit''}
                  \<and> CHR 0x0A \<notin> set m \<and> CHR 0x0A \<notin> set n)"
proof
  assume a: "claude_limit_at s"
  then obtain r where r: "s = ''claude'' @ r"
    by (auto simp: claude_limit_at_def startswith_iff split: if_splits)
  let ?l = "takeWhile (\<lambda>c. c \<noteq> CHR 0x0A) r"
  from a r have "some_suffix word_then_reach ?l"
    by (simp add: claude_limit_at_def split: if_splits)
  then obtain m w n b where l: "?l = m @ w @ n @ ''reach'' @ b"
    and w: "w \<in> {''usage'', ''use'', ''limit''}"
    unfolding some_suffix_iff word_then_reach_iff by blast
  have "CHR 0x0A \<notin> set ?l" by (rule line_has_no_feed)
  with l have nf: "CHR 0x0A \<notin> set m" "CHR 0x0A \<notin> set n" by auto
  have "r = ?l @ dropWhile (\<lambda>c. c \<noteq> CHR 0x0A) r" by simp
  with l have "r = m @ w @ n @ ''reach'' @ (b @ dropWhile (\<lambda>c. c \<noteq> CHR 0x0A) r)"
    by simp
  with r have "s = ''claude'' @ m @ w @ n @ ''reach'' @ (b @ dropWhile (\<lambda>c. c \<noteq> CHR 0x0A) r)"
    by simp
  with w nf show "\<exists>m w n b. s = ''claude'' @ m @ w @ n @ ''reach'' @ b
                  \<and> w \<in> {''usage'', ''use'', ''limit''}
                  \<and> CHR 0x0A \<notin> set m \<and> CHR 0x0A \<notin> set n"
    by blast
next
  assume "\<exists>m w n b. s = ''claude'' @ m @ w @ n @ ''reach'' @ b
                  \<and> w \<in> {''usage'', ''use'', ''limit''}
                  \<and> CHR 0x0A \<notin> set m \<and> CHR 0x0A \<notin> set n"
  then obtain m w n b where s: "s = ''claude'' @ m @ w @ n @ ''reach'' @ b"
    and w: "w \<in> {''usage'', ''use'', ''limit''}"
    and nf: "CHR 0x0A \<notin> set m" "CHR 0x0A \<notin> set n" by blast
  from w have wf: "CHR 0x0A \<notin> set w" by auto
  have "CHR 0x0A \<notin> set (m @ w @ n @ ''reach'')" using nf wf by simp
  from takeWhile_line [OF this, of b]
  have "takeWhile (\<lambda>c. c \<noteq> CHR 0x0A) (m @ w @ n @ ''reach'' @ b)
          = m @ w @ n @ ''reach'' @ takeWhile (\<lambda>c. c \<noteq> CHR 0x0A) b"
    by simp
  moreover have "some_suffix word_then_reach
                   (m @ w @ n @ ''reach'' @ takeWhile (\<lambda>c. c \<noteq> CHR 0x0A) b)"
    unfolding some_suffix_iff word_then_reach_iff using w by blast
  ultimately show "claude_limit_at s"
    using s by (simp add: claude_limit_at_def)
qed

text \<open>\<^verbatim>\<open>Claude.*(?:usage|use|limit).*reach\<close>, ignoring case: somewhere in the lower-cased
  subject stands \<^verbatim>\<open>claude\<close>, later one of the three words and later \<^verbatim>\<open>reach\<close>, with no
  line feed in the two gaps.\<close>

lemma RATE_LIMIT_MSG_iff:
  "RATE_LIMIT_MSG s
     = (\<exists>a m w n b. py_lower s = a @ ''claude'' @ m @ w @ n @ ''reach'' @ b
                    \<and> w \<in> {''usage'', ''use'', ''limit''}
                    \<and> CHR 0x0A \<notin> set m \<and> CHR 0x0A \<notin> set n)"
  unfolding RATE_LIMIT_MSG_def some_suffix_iff claude_limit_at_iff by blast

section \<open>Truncation in the classifier\<close>

lemma rfind_from_absent: "x \<notin> set s \<Longrightarrow> rfind_from x s k f = f"
  by (induction s arbitrary: k f) auto

lemma rfind_from_last:
  "i < length s \<Longrightarrow> s ! i = x \<Longrightarrow> (\<forall>j. i < j \<and> j < length s \<longrightarrow> s ! j \<noteq> x)
   \<Longrightarrow> rfind_from x s k f = k + int i"
proof (induction s arbitrary: i k f)
  case Nil
  then show ?case by simp
next
  case (Cons c cs)
  show ?case
  proof (cases i)
    case 0
    have "x \<notin> set cs"
    proof
      assume "x \<in> set cs"
      then obtain j where "j < length cs" "cs ! j = x" by (auto simp: in_set_conv_nth)
      with Cons.prems(3) 0 show False by (auto dest: spec [of _ "Suc j"])
    qed
    with 0 Cons.prems(2) show ?thesis by (simp add: rfind_from_absent)
  next
    case (Suc i')
    have "\<forall>j. i' < j \<and> j < length cs \<longrightarrow> cs ! j \<noteq> x"
      using Cons.prems(3) Suc by (auto dest: spec [of _ "Suc j" for j])
    with Cons.IH [of i' "k + 1" "if c = x then k else f"] Cons.prems(1,2) Suc
    show ?thesis by simp
  qed
qed

lemma rfind_from_range:
  "rfind_from x s k f = f \<or> (\<exists>i<length s. rfind_from x s k f = k + int i \<and> s ! i = x)"
proof (induction s arbitrary: k f)
  case Nil
  then show ?case by simp
next
  case (Cons c cs)
  from Cons [of "k + 1" "if c = x then k else f"]
  show ?case
  proof
    assume a: "rfind_from x cs (k + 1) (if c = x then k else f) = (if c = x then k else f)"
    show ?thesis
    proof (cases "c = x")
      case True
      with a have "rfind_from x (c # cs) k f = k + int 0 \<and> (c # cs) ! 0 = x" by simp
      then show ?thesis by blast
    next
      case False
      with a show ?thesis by simp
    qed
  next
    assume "\<exists>i<length cs. rfind_from x cs (k + 1) (if c = x then k else f) = k + 1 + int i \<and> cs ! i = x"
    then obtain i where "i < length cs"
      "rfind_from x cs (k + 1) (if c = x then k else f) = k + 1 + int i" "cs ! i = x" by blast
    then have "Suc i < length (c # cs) \<and> rfind_from x (c # cs) k f = k + int (Suc i)
        \<and> (c # cs) ! Suc i = x" by simp
    then show ?thesis by blast
  qed
qed

lemma truncate_short: "length txt \<le> 120 \<Longrightarrow> truncate_text txt = txt"
  by (simp add: truncate_text_def)

lemma truncate_bound:
  assumes "120 < length txt"
  shows "\<exists>n\<le>120. truncate_text txt = take n txt @ ''...''"
proof (cases "100 < py_rfind (take 120 txt) CHR '' ''")
  case True
  from rfind_from_range [of "CHR '' ''" "take 120 txt" 0 "-1"] True
  obtain i where i: "i < length (take 120 txt)" "py_rfind (take 120 txt) CHR '' '' = int i"
    by (auto simp: py_rfind_def)
  then have "i \<le> 120" by simp
  then have "take i (take 120 txt) = take i txt" by (simp add: min_def)
  with assms True i \<open>i \<le> 120\<close> have "truncate_text txt = take i txt @ ''...''"
    by (simp add: truncate_text_def Let_def)
  with \<open>i \<le> 120\<close> show ?thesis by blast
next
  case False
  with assms have "truncate_text txt = take 120 txt @ ''...''"
    by (simp add: truncate_text_def Let_def)
  then show ?thesis by blast
qed

lemma truncate_at_space:
  assumes "120 < length txt" and "100 < i" and "i < 120" and "txt ! i = CHR '' ''"
    and "\<forall>j. i < j \<and> j < 120 \<longrightarrow> txt ! j \<noteq> CHR '' ''"
  shows "truncate_text txt = take i txt @ ''...''"
proof -
  have len: "length (take 120 txt) = 120" using assms(1) by simp
  have "rfind_from CHR '' '' (take 120 txt) 0 (-1) = 0 + int i"
  proof (rule rfind_from_last)
    show "i < length (take 120 txt)" using len assms(3) by simp
    show "take 120 txt ! i = CHR '' ''" using assms(3,4) by simp
    show "\<forall>j. i < j \<and> j < length (take 120 txt) \<longrightarrow> take 120 txt ! j \<noteq> CHR '' ''"
      using assms(5) len by simp
  qed
  then have r: "py_rfind (take 120 txt) CHR '' '' = int i" by (simp add: py_rfind_def)
  have "take i (take 120 txt) = take i txt" using assms(3) by (simp add: min_def)
  with assms(1,2) r show ?thesis
    by (simp add: truncate_text_def Let_def)
qed

lemma truncate_whole_window:
  assumes "120 < length txt" and "\<forall>j. 100 < j \<and> j < 120 \<longrightarrow> txt ! j \<noteq> CHR '' ''"
  shows "truncate_text txt = take 120 txt @ ''...''"
proof -
  have "\<not> 100 < py_rfind (take 120 txt) CHR '' ''"
  proof
    assume a: "100 < py_rfind (take 120 txt) CHR '' ''"
    from rfind_from_range [of "CHR '' ''" "take 120 txt" 0 "-1"] a
    obtain i where i: "i < length (take 120 txt)" "py_rfind (take 120 txt) CHR '' '' = int i"
      "take 120 txt ! i = CHR '' ''"
      by (auto simp: py_rfind_def)
    with a have "100 < i" "i < 120" "txt ! i = CHR '' ''" by auto
    with assms(2) show False by blast
  qed
  with assms(1) show ?thesis by (simp add: truncate_text_def Let_def)
qed

lemma fallback_shows_truncated:
  assumes "py_strip json_line \<noteq> []" and "jq_summary rt mk validated extracted = Inl e"
    and "json_loads rt (py_strip json_line) = Inr (JObject data)"
    and "map_of data ''type'' = Some (JString ''assistant'')"
    and "map_of data ''message'' = Some (JObject message)"
    and "map_of message ''content'' = Some (JArray (JObject item # others))"
    and "map_of item ''type'' = Some (JString ''text'')"
    and "map_of item ''text'' = Some (JString txt)"
  shows "extract_summary_with_jq rt mk validated extracted json_line
           = Some (robot mk @ truncate_text txt)"
  using assms by (simp add: extract_summary_with_jq_def dict_get_def assistant_summary_def)

lemma jq_shows_truncated:
  assumes "py_strip json_line \<noteq> []"
    and "validated = Exited 0 validated_json" and "extracted = Exited 0 fields_output"
    and "json_loads rt fields_output = Inr (JObject fs)"
    and "map_of fs ''type'' = Some (JString ''assistant'')"
    and "map_of fs ''message_type'' = Some (JString ''text'')"
    and "map_of fs ''text_preview'' = Some (JString txt)"
  shows "extract_summary_with_jq rt mk validated extracted json_line
           = Some (robot mk @ truncate_text txt)"
  using assms by (simp add: extract_summary_with_jq_def jq_summary_def dict_get_def)


text \<open>
  Claim C4, as amended. Take a record that \<^verbatim>\<open>extract_summary_with_jq\<close> classifies as an
  assistant message whose first content item is the text \<open>txt\<close>: either jq failed and
  the line decodes to such a record (the fallback path), or both runs of jq ended with
  code 0 and the extracted fields say so (the jq path). The summary is the robot
  marker followed by the shown text. A text of at most 120 characters is shown as it
  is. A longer text is shown as at most its first 120 characters followed by three
  dots; the cut is at the last space of the first 120 characters when that space is
  at an offset strictly greater than 100 (101 to 119), and after the whole 120
  characters when no space lies at those offsets.
\<close>

theorem preview_is_cut_after_offset_100:
  assumes "py_strip json_line \<noteq> []"
    and "(jq_summary rt mk validated extracted = Inl e
          \<and> json_loads rt (py_strip json_line) = Inr (JObject data)
          \<and> map_of data ''type'' = Some (JString ''assistant'')
          \<and> map_of data ''message'' = Some (JObject message)
          \<and> map_of message ''content'' = Some (JArray (JObject item # others))
          \<and> map_of item ''type'' = Some (JString ''text'')
          \<and> map_of item ''text'' = Some (JString txt))
       \<or> (validated = Exited 0 validated_json \<and> extracted = Exited 0 fields_output
          \<and> json_loads rt fields_output = Inr (JObject fs)
          \<and> map_of fs ''type'' = Some (JString ''assistant'')
          \<and> map_of fs ''message_type'' = Some (JString ''text'')
          \<and> map_of fs ''text_preview'' = Some (JString txt))"
  shows "\<exists>shown. extract_summary_with_jq rt mk validated extracted json_line
                   = Some (robot mk @ shown)
           \<and> (length txt \<le> 120 \<longrightarrow> shown = txt)
           \<and> (120 < length txt \<longrightarrow>
                (\<exists>n\<le>120. shown = take n txt @ ''...'')
                \<and> (\<forall>i. 100 < i \<and> i < 120 \<and> txt ! i = CHR '' ''
                        \<and> (\<forall>j. i < j \<and> j < 120 \<longrightarrow> txt ! j \<noteq> CHR '' '')
                        \<longrightarrow> shown = take i txt @ ''...'')
                \<and> ((\<forall>j. 100 < j \<and> j < 120 \<longrightarrow> txt ! j \<noteq> CHR '' '')
                     \<longrightarrow> shown = take 120 txt @ ''...''))"
proof -
  have s: "extract_summary_with_jq rt mk validated extracted json_line
             = Some (robot mk @ truncate_text txt)"
    using assms(2)
  proof
    assume "jq_summary rt mk validated extracted = Inl e
          \<and> json_loads rt (py_strip json_line) = Inr (JObject data)
          \<and> map_of data ''type'' = Some (JString ''assistant'')
          \<and> map_of data ''message'' = Some (JObject message)
          \<and> map_of message ''content'' = Some (JArray (JObject item # others))
          \<and> map_of item ''type'' = Some (JString ''text'')
          \<and> map_of item ''text'' = Some (JString txt)"
    with assms(1) show ?thesis by (intro fallback_shows_truncated) auto
  next
    assume "validated = Exited 0 validated_json \<and> extracted = Exited 0 fields_output
          \<and> json_loads rt fields_output = Inr (JObject fs)
          \<and> map_of fs ''type'' = Some (JString ''assistant'')
          \<and> map_of fs ''message_type'' = Some (JString ''text'')
          \<and> map_of fs ''text_preview'' = Some (JString txt)"
    with assms(1) show ?thesis by (intro jq_shows_truncated) auto
  qed
  have "(length txt \<le> 120 \<longrightarrow> truncate_text txt = txt)
    \<and> (120 < length txt \<longrightarrow>
                (\<exists>n\<le>120. truncate_text txt = take n txt @ ''...'')
                \<and> (\<forall>i. 100 < i \<and> i < 120 \<and> txt ! i = CHR '' ''
                        \<and> (\<forall>j. i < j \<and> j < 120 \<longrightarrow> txt ! j \<noteq> CHR '' '')
                        \<longrightarrow> truncate_text txt = take i txt @ ''...'')
                \<and> ((\<forall>j. 100 < j \<and> j < 120 \<longrightarrow> txt ! j \<noteq> CHR '' '')
                     \<longrightarrow> truncate_text txt = take 120 txt @ ''...''))"
    using truncate_short [of "txt"] truncate_bound [of "txt"] truncate_at_space [of "txt"]
      truncate_whole_window [of "txt"]
    by blast
  with s show ?thesis by blast
qed

lemma window_has_no_space:
  assumes "list_all (\<lambda>c. c \<noteq> x) (drop a (take b s))" and "b \<le> length s"
  shows "\<forall>j. a \<le> j \<and> j < b \<longrightarrow> s ! j \<noteq> x"
proof (intro allI impI)
  fix j assume j: "a \<le> j \<and> j < b"
  then have "j - a < length (drop a (take b s))" using assms(2) by auto
  with assms(1) have "drop a (take b s) ! (j - a) \<noteq> x"
    by (simp add: list_all_length)
  with j assms(2) show "s ! j \<noteq> x" by simp
qed

lemma sample_loads_text:
  "json_loads sample_runtime (py_strip line_text_100)
     = Inr (JObject [(''type'', JString ''assistant''),
                  (''message'', JObject [(''content'',
                     JArray [JObject [(''type'', JString ''text''),
                                      (''text'', JString text_space_at_100)]])])])"
  "json_loads sample_runtime (py_strip line_text_102)
     = Inr (JObject [(''type'', JString ''assistant''),
                  (''message'', JObject [(''content'',
                     JArray [JObject [(''type'', JString ''text''),
                                      (''text'', JString text_space_at_102)]])])])"
  "py_strip line_text_100 \<noteq> []" "py_strip line_text_102 \<noteq> []"
  by (simp_all add: sample_runtime_def sample_loads_def sample_lines_def py_strip_def
      is_space_def line_a_def line_b_def line_c_def line_c_padded_def line_usage_full_def
      line_usage_partial_def line_no_usage_def line_usage_null_def line_count_string_def
      line_usage_negative_def line_done_error_def line_working_error_def line_text_100_def
      line_text_102_def text_space_at_100_def text_space_at_102_def)

theorem preview_is_cut_after_offset_100_witness:
  "py_strip line_text_102 \<noteq> []
   \<and> jq_summary sample_runtime sample_markers (Raised OSError) (Raised OSError) = Inl OSError
   \<and> json_loads sample_runtime (py_strip line_text_102)
       = Inr (JObject [(''type'', JString ''assistant''),
                  (''message'', JObject [(''content'',
                     JArray [JObject [(''type'', JString ''text''),
                                      (''text'', JString text_space_at_102)]])])])
   \<and> 120 < length text_space_at_102
   \<and> text_space_at_102 ! 102 = CHR '' ''
   \<and> extract_summary_with_jq sample_runtime sample_markers (Raised OSError) (Raised OSError)
         line_text_102
       = Some (robot sample_markers @ take 102 text_space_at_102 @ ''...'')"
proof -
  have jq: "jq_summary sample_runtime sample_markers (Raised OSError) (Raised OSError) = Inl OSError"
    by (simp add: jq_summary_def)
  have len: "120 < length text_space_at_102" and sp: "text_space_at_102 ! 102 = CHR '' ''"
    by (simp_all add: text_space_at_102_def)
  have "list_all (\<lambda>c. c \<noteq> CHR '' '') (drop 103 (take 120 text_space_at_102))"
    by (simp add: text_space_at_102_def)
  then have "\<forall>j. 103 \<le> j \<and> j < 120 \<longrightarrow> text_space_at_102 ! j \<noteq> CHR '' ''"
    by (rule window_has_no_space) (simp add: text_space_at_102_def)
  then have after: "\<forall>j. 102 < j \<and> j < 120 \<longrightarrow> text_space_at_102 ! j \<noteq> CHR '' ''"
    by auto
  have h: "(jq_summary sample_runtime sample_markers (Raised OSError) (Raised OSError) = Inl OSError
          \<and> json_loads sample_runtime (py_strip line_text_102)
              = Inr (JObject [(''type'', JString ''assistant''),
                  (''message'', JObject [(''content'',
                     JArray [JObject [(''type'', JString ''text''),
                                      (''text'', JString text_space_at_102)]])])])
          \<and> map_of [(''type'', JString ''assistant''),
                  (''message'', JObject [(''content'',
                     JArray [JObject [(''type'', JString ''text''),
                                      (''text'', JString text_space_at_102)]])])] ''type''
              = Some (JString ''assistant'')
          \<and> map_of [(''type'', JString ''assistant''),
                  (''message'', JObject [(''content'',
                     JArray [JObject [(''type'', JString ''text''),
                                      (''text'', JString text_space_at_102)]])])] ''message''
              = Some (JObject [(''content'',
                     JArray [JObject [(''type'', JString ''text''),
                                      (''text'', JString text_space_at_102)]])])
          \<and> map_of [(''content'',
                     JArray [JObject [(''type'', JString ''text''),
                                      (''text'', JString text_space_at_102)]])] ''content''
              = Some (JArray (JObject [(''type'', JString ''text''),
                                      (''text'', JString text_space_at_102)] # []))
          \<and> map_of [(''type'', JString ''text''), (''text'', JString text_space_at_102)] ''type''
              = Some (JString ''text'')
          \<and> map_of [(''type'', JString ''text''), (''text'', JString text_space_at_102)] ''text''
              = Some (JString text_space_at_102))
       \<or> (Raised OSError = Exited 0 [] \<and> Raised OSError = Exited 0 []
          \<and> json_loads sample_runtime [] = Inr (JObject [])
          \<and> map_of [] ''type'' = Some (JString ''assistant'')
          \<and> map_of [] ''message_type'' = Some (JString ''text'')
          \<and> map_of [] ''text_preview'' = Some (JString text_space_at_102))"
    using jq sample_loads_text(2) by simp
  from preview_is_cut_after_offset_100 [OF sample_loads_text(4) h]
  obtain shown where
    e: "extract_summary_with_jq sample_runtime sample_markers (Raised OSError) (Raised OSError)
          line_text_102 = Some (robot sample_markers @ shown)"
    and c: "120 < length text_space_at_102 \<longrightarrow>
              (\<forall>i. 100 < i \<and> i < 120 \<and> text_space_at_102 ! i = CHR '' ''
                    \<and> (\<forall>j. i < j \<and> j < 120 \<longrightarrow> text_space_at_102 ! j \<noteq> CHR '' '')
                    \<longrightarrow> shown = take i text_space_at_102 @ ''...'')"
    by blast
  from c len sp after have "shown = take 102 text_space_at_102 @ ''...''"
    by simp
  with e jq sample_loads_text(2,4) len sp show ?thesis by simp
qed

text \<open>The claim as stated puts the cut at the last space also when that space is at
  offset 100. There the code keeps the whole 120 characters: \<^verbatim>\<open>last_space > 100\<close> is
  false.\<close>

theorem space_at_offset_100_is_not_the_cut:
  "120 < length text_space_at_100
   \<and> text_space_at_100 ! 100 = CHR '' ''
   \<and> py_rfind (take 120 text_space_at_100) CHR '' '' = 100
   \<and> extract_summary_with_jq sample_runtime sample_markers (Raised OSError) (Raised OSError)
         line_text_100
       = Some (robot sample_markers @ take 120 text_space_at_100 @ ''...'')
   \<and> extract_summary_with_jq sample_runtime sample_markers (Raised OSError) (Raised OSError)
         line_text_100
       \<noteq> Some (robot sample_markers @ take 100 text_space_at_100 @ ''...'')"
proof -
  have jq: "jq_summary sample_runtime sample_markers (Raised OSError) (Raised OSError) = Inl OSError"
    by (simp add: jq_summary_def)
  have t: "truncate_text text_space_at_100 = take 120 text_space_at_100 @ ''...''"
    by (simp add: truncate_text_def py_rfind_def text_space_at_100_def)
  have e: "extract_summary_with_jq sample_runtime sample_markers (Raised OSError) (Raised OSError)
         line_text_100 = Some (robot sample_markers @ truncate_text text_space_at_100)"
    using sample_loads_text(3) jq sample_loads_text(1)
    by (rule fallback_shows_truncated
          [where message = "[(''content'',
                     JArray [JObject [(''type'', JString ''text''),
                                      (''text'', JString text_space_at_100)]])]"
             and item = "[(''type'', JString ''text''), (''text'', JString text_space_at_100)]"
             and others = "[]"])
       simp_all
  have r: "py_rfind (take 120 text_space_at_100) CHR '' '' = 100"
    by (simp add: py_rfind_def text_space_at_100_def)
  have d: "take 120 text_space_at_100 @ ''...'' \<noteq> take 100 text_space_at_100 @ ''...''"
    by (simp add: text_space_at_100_def)
  have l: "120 < length text_space_at_100" "text_space_at_100 ! 100 = CHR '' ''"
    by (simp_all add: text_space_at_100_def)
  show ?thesis using e t r d l by simp
qed

section \<open>The clock time of claude\_loop.py\<close>

lemma sample_loads_b:
  "json_loads sample_runtime (py_strip line_b)
     = Inr (JObject [(''type'', JString ''assistant''),
                        (''message'', JObject [(''content'',
                           JArray [JObject [(''type'', JString ''text''),
                                            (''text'', JString ''Usage limit reached, resets 3am'')]])])])"
  "line_b \<noteq> []"
  by (simp_all add: sample_runtime_def sample_loads_def sample_lines_def py_strip_def
      is_space_def line_a_def line_b_def)

lemma sample_b_matches:
  "LOOP_RATE_LIMIT_MSG ''Usage limit reached, resets 3am''"
  "RESET_TIME_PATTERN ''Usage limit reached, resets 3am'' = Some (''3'', ''am'')"
  by (simp_all add: LOOP_RATE_LIMIT_MSG_def RESET_TIME_PATTERN_def py_lower_def to_lower_def
      limit_reached_at_def resets_at_def hour_am_pm_at_def am_pm_at_def is_space_def is_digit_def)

lemma sample_clock:
  "clock_reset sample_runtime five_oclock (''3'', ''am'') = Inl NameError"
  "clock_reset sample_runtime one_oclock (''3'', ''am'') = Inr 1705287600"
  by (simp_all add: clock_reset_def py_int_def c_strip_def int_body_def is_digit_def digit_val_def
      is_c_space_def sample_runtime_def to_24h_def datetime_le_def five_oclock_def one_oclock_def
      utc_timestamp_def days_from_civil_def)

text \<open>The conversion to the 24-hour clock, and the clock branch when the hour is still
  ahead: the epoch of today at that hour.\<close>

lemma to_24h_cases:
  "to_24h 12 ''am'' = 0" "to_24h 12 ''pm'' = 12"
  "h \<noteq> 12 \<Longrightarrow> to_24h h ''pm'' = h + 12" "h \<noteq> 12 \<Longrightarrow> to_24h h ''am'' = h"
  by (simp_all add: to_24h_def)

lemma future_clock_time_is_returned:
  assumes "py_int rt digits = Inr h" and "0 \<le> to_24h h am_pm" and "to_24h h am_pm \<le> 23"
    and "\<not> datetime_le (now\<lparr>hour := to_24h h am_pm, minute := 0, second := 0, microsecond := 0\<rparr>) now"
  shows "clock_reset rt now (digits, am_pm)
           = Inr (local_timestamp rt
                    (now\<lparr>hour := to_24h h am_pm, minute := 0, second := 0, microsecond := 0\<rparr>))"
  using assms by (simp add: clock_reset_def Let_def)

lemma passed_clock_time_raises:
  assumes "py_int rt digits = Inr h" and "0 \<le> to_24h h am_pm" and "to_24h h am_pm \<le> 23"
    and "datetime_le (now\<lparr>hour := to_24h h am_pm, minute := 0, second := 0, microsecond := 0\<rparr>) now"
  shows "clock_reset rt now (digits, am_pm) = Inl NameError"
  using assms by (simp add: clock_reset_def Let_def)

text \<open>
  Claim C1 (the code does not do this). On the assistant record with the text
  \<^verbatim>\<open>Usage limit reached, resets 3am\<close>, read at 01:00, the function returns the epoch of
  03:00 the same day (here on a machine in UTC, 15 January 2024). Read at 05:00, when
  03:00 has passed, it reaches \<^verbatim>\<open>timedelta(days=1)\<close>, a name the file never imports: it
  raises \<^verbatim>\<open>NameError\<close>, which the handler does not catch, instead of returning the epoch
  of 03:00 the next day.
\<close>

theorem passed_clock_time_raises_name_error:
  "loop_rate_limit_reset_epoch sample_runtime one_oclock line_b = Inr (Some 1705287600)
   \<and> loop_rate_limit_reset_epoch sample_runtime five_oclock line_b = Inl NameError"
  by (simp add: loop_rate_limit_reset_epoch_def sample_loads_b dict_get_def sample_b_matches
      sample_clock epoch_handler_def)

section \<open>Properties of the supervisor loops\<close>

subsection \<open>One iteration\<close>

lemma after_exit_continue:
  assumes "after_exit completed rt single_iteration current_epoch last_line = (sleeps, resume, Continue)"
  shows "(rate_limit_reset_epoch rt last_line = Inr None \<and> \<not> resume \<and> sleeps = [Sleep 60])
       \<or> (\<exists>epoch. rate_limit_reset_epoch rt last_line = Inr (Some epoch) \<and> resume
                   \<and> sleeps = [Sleep (max 0 (epoch - current_epoch)), Sleep 60])"
  using assms
  by (auto simp: after_exit_def Let_def split: sum.splits bool.splits option.splits if_splits)

lemma after_exit_sleeps:
  assumes "after_exit completed rt single_iteration current_epoch last_line = (sleeps, resume, how)"
  shows "\<forall>e\<in>set sleeps. \<not> is_spawn e"
  using assms
  by (auto simp: after_exit_def Let_def split: sum.splits bool.splits option.splits if_splits)

lemma loop_after_exit_continue:
  assumes "loop_after_exit rt now current_epoch last_line = (sleeps, resume, Continue)"
  shows "(loop_rate_limit_reset_epoch rt now last_line = Inr None \<and> \<not> resume \<and> sleeps = [Sleep 60])
       \<or> (\<exists>epoch. loop_rate_limit_reset_epoch rt now last_line = Inr (Some epoch) \<and> resume
                   \<and> sleeps = [Sleep (max 0 (epoch - current_epoch)), Sleep 60])"
  using assms
  by (auto simp: loop_after_exit_def Let_def split: sum.splits option.splits if_splits)

lemma loop_after_exit_sleeps:
  assumes "loop_after_exit rt now current_epoch last_line = (sleeps, resume, how)"
  shows "\<forall>e\<in>set sleeps. \<not> is_spawn e"
  using assms
  by (auto simp: loop_after_exit_def Let_def split: sum.splits option.splits if_splits)

lemma iteration_continue:
  assumes "iteration completed PROMPT rt single_iteration sv run = (sv', evs, Continue)"
  shows "log_file sv' = log_file sv @ concat (run_output run)
    \<and> ((rate_limit_reset_epoch rt (last_json_line (Some (log_file sv'))) = Inr None
         \<and> \<not> continue_next sv'
         \<and> evs = [Spawn (claude_cmd PROMPT (continue_next sv)), Sleep 60])
       \<or> (\<exists>epoch. rate_limit_reset_epoch rt (last_json_line (Some (log_file sv'))) = Inr (Some epoch)
             \<and> continue_next sv'
             \<and> evs = [Spawn (claude_cmd PROMPT (continue_next sv)),
                       Sleep (max 0 (epoch - run_clock run)), Sleep 60]))"
proof -
  let ?logged = "log_file sv @ concat (run_output run)"
  let ?counted = "(stats sv)\<lparr>iterations := iterations (stats sv) + 1\<rparr>"
  obtain st x where f: "feed_usage rt ?counted (map py_strip (run_output run)) = (st, x)"
    by (cases "feed_usage rt ?counted (map py_strip (run_output run))")
  obtain sleeps resume how where
    a: "after_exit completed rt single_iteration (run_clock run) (last_json_line (Some ?logged))
          = (sleeps, resume, how)"
    by (cases "after_exit completed rt single_iteration (run_clock run) (last_json_line (Some ?logged))")
  from assms f have x: "x = None"
    by (cases x) (auto simp: iteration_def Let_def)
  from assms f a x have r: "sv' = \<lparr>continue_next = resume, stats = st, log_file = ?logged\<rparr>"
    "evs = Spawn (claude_cmd PROMPT (continue_next sv)) # sleeps" "how = Continue"
    by (auto simp: iteration_def Let_def)
  from after_exit_continue [OF a [unfolded r(3)]] r show ?thesis
    by auto
qed

lemma iteration_events:
  assumes "iteration completed PROMPT rt single_iteration sv run = (sv', evs, how)"
  shows "\<exists>sleeps. evs = Spawn (claude_cmd PROMPT (continue_next sv)) # sleeps
                 \<and> (\<forall>e\<in>set sleeps. \<not> is_spawn e)"
proof -
  let ?logged = "log_file sv @ concat (run_output run)"
  let ?counted = "(stats sv)\<lparr>iterations := iterations (stats sv) + 1\<rparr>"
  obtain st x where f: "feed_usage rt ?counted (map py_strip (run_output run)) = (st, x)"
    by (cases "feed_usage rt ?counted (map py_strip (run_output run))")
  obtain sleeps resume how' where
    a: "after_exit completed rt single_iteration (run_clock run) (last_json_line (Some ?logged))
          = (sleeps, resume, how')"
    by (cases "after_exit completed rt single_iteration (run_clock run) (last_json_line (Some ?logged))")
  show ?thesis
  proof (cases x)
    case None
    with assms f a have "evs = Spawn (claude_cmd PROMPT (continue_next sv)) # sleeps"
      by (auto simp: iteration_def Let_def)
    with after_exit_sleeps [OF a] show ?thesis by blast
  next
    case (Some e)
    with assms f have "evs = Spawn (claude_cmd PROMPT (continue_next sv)) # []"
      by (auto simp: iteration_def Let_def)
    then show ?thesis by simp
  qed
qed

lemma loop_iteration_continue:
  assumes "loop_iteration PROMPT rt sv run = (sv', evs, Continue)"
  shows "snd sv' = snd sv @ concat (run_output run)
    \<and> ((loop_rate_limit_reset_epoch rt (run_now run) (last_json_line (Some (snd sv'))) = Inr None
         \<and> \<not> fst sv'
         \<and> evs = [Spawn (claude_cmd PROMPT (fst sv)), Sleep 60])
       \<or> (\<exists>epoch. loop_rate_limit_reset_epoch rt (run_now run) (last_json_line (Some (snd sv')))
                     = Inr (Some epoch)
             \<and> fst sv'
             \<and> evs = [Spawn (claude_cmd PROMPT (fst sv)),
                       Sleep (max 0 (epoch - run_clock run)), Sleep 60]))"
proof -
  let ?logged = "snd sv @ concat (run_output run)"
  obtain sleeps resume how where
    a: "loop_after_exit rt (run_now run) (run_clock run) (last_json_line (Some ?logged))
          = (sleeps, resume, how)"
    by (cases "loop_after_exit rt (run_now run) (run_clock run) (last_json_line (Some ?logged))")
  from assms a have r: "sv' = (resume, ?logged)"
    "evs = Spawn (claude_cmd PROMPT (fst sv)) # sleeps" "how = Continue"
    by (auto simp: loop_iteration_def Let_def)
  from loop_after_exit_continue [OF a [unfolded r(3)]] r show ?thesis
    by auto
qed

lemma loop_iteration_events:
  assumes "loop_iteration PROMPT rt sv run = (sv', evs, how)"
  shows "\<exists>sleeps. evs = Spawn (claude_cmd PROMPT (fst sv)) # sleeps
                 \<and> (\<forall>e\<in>set sleeps. \<not> is_spawn e)"
proof -
  let ?logged = "snd sv @ concat (run_output run)"
  obtain sleeps resume how' where
    a: "loop_after_exit rt (run_now run) (run_clock run) (last_json_line (Some ?logged))
          = (sleeps, resume, how')"
    by (cases "loop_after_exit rt (run_now run) (run_clock run) (last_json_line (Some ?logged))")
  from assms a have "evs = Spawn (claude_cmd PROMPT (fst sv)) # sleeps"
    by (auto simp: loop_iteration_def Let_def)
  with loop_after_exit_sleeps [OF a] show ?thesis by blast
qed

subsection \<open>Traces\<close>

lemma cooled_sleeps: "\<forall>e\<in>set es. \<not> is_spawn e \<Longrightarrow> cooled (e # es)"
  by (induction es arbitrary: e) auto

lemma cooled_append:
  "cooled a \<Longrightarrow> cooled b \<Longrightarrow> (a \<noteq> [] \<and> b \<noteq> [] \<Longrightarrow> is_spawn (hd b) \<Longrightarrow> last a = Sleep 60)
   \<Longrightarrow> cooled (a @ b)"
proof (induction a rule: cooled.induct)
  case 1
  then show ?case by simp
next
  case (2 e)
  then show ?case by (cases b) auto
next
  case (3 e e' es)
  then show ?case by auto
qed

lemma cooled_nth:
  "cooled evs \<Longrightarrow> 0 < i \<Longrightarrow> i < length evs \<Longrightarrow> is_spawn (evs ! i) \<Longrightarrow> evs ! (i - 1) = Sleep 60"
proof (induction evs arbitrary: i rule: cooled.induct)
  case 1
  then show ?case by simp
next
  case (2 e)
  then show ?case by simp
next
  case (3 e e' es)
  show ?case
  proof (cases "i = 1")
    case True
    with 3 show ?thesis by simp
  next
    case False
    with "3.prems" obtain k where k: "i = Suc k" "0 < k" by (cases i) auto
    with "3.prems" have "(e' # es) ! (k - 1) = Sleep 60"
      by (intro "3.IH") auto
    with k show ?thesis by (cases k) auto
  qed
qed


lemma main_loop_trace:
  "main_loop completed PROMPT rt single_iteration sv runs = (sv', evs, how)
   \<Longrightarrow> cooled evs \<and> (evs \<noteq> [] \<longrightarrow> is_spawn (hd evs))
       \<and> (how = Continue \<longrightarrow> evs \<noteq> [] \<longrightarrow> last evs = Sleep 60)"
proof (induction runs arbitrary: sv sv' evs how)
  case Nil
  then show ?case by simp
next
  case (Cons run runs)
  obtain s1 e1 h1 where it: "iteration completed PROMPT rt single_iteration sv run = (s1, e1, h1)"
    by (cases "iteration completed PROMPT rt single_iteration sv run")
  from iteration_events [OF it] obtain sleeps where
    e1: "e1 = Spawn (claude_cmd PROMPT (continue_next sv)) # sleeps" "\<forall>e\<in>set sleeps. \<not> is_spawn e"
    by blast
  then have c1: "cooled e1" by (simp add: cooled_sleeps)
  show ?case
  proof (cases "h1 = Continue")
    case False
    with Cons.prems it have "evs = e1" "how = h1" by auto
    with c1 e1 False show ?thesis by simp
  next
    case True
    obtain s2 e2 h2 where ml: "main_loop completed PROMPT rt single_iteration s1 runs = (s2, e2, h2)"
      by (cases "main_loop completed PROMPT rt single_iteration s1 runs")
    from Cons.prems it True ml have r: "evs = e1 @ e2" "how = h2" by auto
    from iteration_continue [OF it [unfolded True]] have l1: "last e1 = Sleep 60" by auto
    from Cons.IH [OF ml] have ih: "cooled e2" "e2 \<noteq> [] \<longrightarrow> is_spawn (hd e2)"
      "h2 = Continue \<longrightarrow> e2 \<noteq> [] \<longrightarrow> last e2 = Sleep 60" by auto
    have "cooled (e1 @ e2)" using c1 ih(1) l1 by (rule cooled_append)
    with r e1 l1 ih show ?thesis by (cases "e2 = []") auto
  qed
qed

lemma loop_main_trace:
  "loop_main_from PROMPT rt sv runs = (sv', evs, how)
   \<Longrightarrow> cooled evs \<and> (evs \<noteq> [] \<longrightarrow> is_spawn (hd evs))
       \<and> (how = Continue \<longrightarrow> evs \<noteq> [] \<longrightarrow> last evs = Sleep 60)"
proof (induction runs arbitrary: sv sv' evs how)
  case Nil
  then show ?case by simp
next
  case (Cons run runs)
  obtain s1 e1 h1 where it: "loop_iteration PROMPT rt sv run = (s1, e1, h1)"
    by (cases "loop_iteration PROMPT rt sv run")
  from loop_iteration_events [OF it] obtain sleeps where
    e1: "e1 = Spawn (claude_cmd PROMPT (fst sv)) # sleeps" "\<forall>e\<in>set sleeps. \<not> is_spawn e"
    by blast
  then have c1: "cooled e1" by (simp add: cooled_sleeps)
  show ?case
  proof (cases "h1 = Continue")
    case False
    with Cons.prems it have "evs = e1" "how = h1" by auto
    with c1 e1 False show ?thesis by simp
  next
    case True
    obtain s2 e2 h2 where ml: "loop_main_from PROMPT rt s1 runs = (s2, e2, h2)"
      by (cases "loop_main_from PROMPT rt s1 runs")
    from Cons.prems it True ml have r: "evs = e1 @ e2" "how = h2" by auto
    from loop_iteration_continue [OF it [unfolded True]] have l1: "last e1 = Sleep 60" by auto
    from Cons.IH [OF ml] have ih: "cooled e2" "e2 \<noteq> [] \<longrightarrow> is_spawn (hd e2)"
      "h2 = Continue \<longrightarrow> e2 \<noteq> [] \<longrightarrow> last e2 = Sleep 60" by auto
    have "cooled (e1 @ e2)" using c1 ih(1) l1 by (rule cooled_append)
    with r e1 l1 ih show ?thesis by (cases "e2 = []") auto
  qed
qed

text \<open>
  Claim C8. When an iteration of the maker or fixer loop (any completion test) or of
  the claude\_loop loop does not stop, its events are the spawn, then, if a reset
  epoch was detected on the last line of the log, the sleep of
  \<open>max 0 (reset_epoch - now)\<close> seconds, then the sleep of 60 seconds: the cooldown comes
  after the rate-limit sleep, not in its place. Hence in the trace of any number of
  iterations every spawn after the first event comes right after a sleep of 60
  seconds.
\<close>

theorem cooldown_before_next_spawn:
  "(iteration completed PROMPT rt single_iteration sv run = (sv', evs, Continue) \<longrightarrow>
      (rate_limit_reset_epoch rt (last_json_line (Some (log_file sv'))) = Inr None
         \<and> evs = [Spawn (claude_cmd PROMPT (continue_next sv)), Sleep 60])
      \<or> (\<exists>epoch. rate_limit_reset_epoch rt (last_json_line (Some (log_file sv'))) = Inr (Some epoch)
            \<and> evs = [Spawn (claude_cmd PROMPT (continue_next sv)),
                      Sleep (max 0 (epoch - run_clock run)), Sleep 60]))
   \<and> (loop_iteration PROMPT rt lsv run = (lsv', levs, Continue) \<longrightarrow>
      (loop_rate_limit_reset_epoch rt (run_now run) (last_json_line (Some (snd lsv'))) = Inr None
         \<and> levs = [Spawn (claude_cmd PROMPT (fst lsv)), Sleep 60])
      \<or> (\<exists>epoch. loop_rate_limit_reset_epoch rt (run_now run) (last_json_line (Some (snd lsv')))
                    = Inr (Some epoch)
            \<and> levs = [Spawn (claude_cmd PROMPT (fst lsv)),
                       Sleep (max 0 (epoch - run_clock run)), Sleep 60]))
   \<and> (main_loop completed PROMPT rt single_iteration sv runs = (sv'', trace, how) \<longrightarrow>
      (\<forall>i. 0 < i \<and> i < length trace \<and> is_spawn (trace ! i) \<longrightarrow> trace ! (i - 1) = Sleep 60))
   \<and> (loop_main_from PROMPT rt lsv runs = (lsv'', ltrace, lhow) \<longrightarrow>
      (\<forall>i. 0 < i \<and> i < length ltrace \<and> is_spawn (ltrace ! i) \<longrightarrow> ltrace ! (i - 1) = Sleep 60))"
proof (intro conjI impI)
  assume "iteration completed PROMPT rt single_iteration sv run = (sv', evs, Continue)"
  from iteration_continue [OF this]
  show "(rate_limit_reset_epoch rt (last_json_line (Some (log_file sv'))) = Inr None
         \<and> evs = [Spawn (claude_cmd PROMPT (continue_next sv)), Sleep 60])
      \<or> (\<exists>epoch. rate_limit_reset_epoch rt (last_json_line (Some (log_file sv'))) = Inr (Some epoch)
            \<and> evs = [Spawn (claude_cmd PROMPT (continue_next sv)),
                      Sleep (max 0 (epoch - run_clock run)), Sleep 60])"
    by blast
next
  assume "loop_iteration PROMPT rt lsv run = (lsv', levs, Continue)"
  from loop_iteration_continue [OF this]
  show "(loop_rate_limit_reset_epoch rt (run_now run) (last_json_line (Some (snd lsv'))) = Inr None
         \<and> levs = [Spawn (claude_cmd PROMPT (fst lsv)), Sleep 60])
      \<or> (\<exists>epoch. loop_rate_limit_reset_epoch rt (run_now run) (last_json_line (Some (snd lsv')))
                    = Inr (Some epoch)
            \<and> levs = [Spawn (claude_cmd PROMPT (fst lsv)),
                       Sleep (max 0 (epoch - run_clock run)), Sleep 60])"
    by blast
next
  assume "main_loop completed PROMPT rt single_iteration sv runs = (sv'', trace, how)"
  from main_loop_trace [OF this] have "cooled trace" by simp
  then show "\<forall>i. 0 < i \<and> i < length trace \<and> is_spawn (trace ! i) \<longrightarrow> trace ! (i - 1) = Sleep 60"
    using cooled_nth by blast
next
  assume "loop_main_from PROMPT rt lsv runs = (lsv'', ltrace, lhow)"
  from loop_main_trace [OF this] have "cooled ltrace" by simp
  then show "\<forall>i. 0 < i \<and> i < length ltrace \<and> is_spawn (ltrace ! i) \<longrightarrow> ltrace ! (i - 1) = Sleep 60"
    using cooled_nth by blast
qed


subsection \<open>The last line of the log\<close>

lemma scan_back_line: "CHR 0x0A \<notin> set xs \<Longrightarrow> scan_back (xs @ ys) buf = scan_back ys (buf @ xs)"
  by (induction xs arbitrary: buf) auto

lemma last_json_line_final:
  assumes "l \<noteq> []" and "CHR 0x0A \<notin> set l" and "before = [] \<or> last before = CHR 0x0A"
  shows "last_json_line (Some (before @ l @ [CHR 0x0A])) = l"
proof -
  have 1: "scan_back (rev (before @ l @ [CHR 0x0A])) [] = scan_back (rev l @ rev before) []"
    by simp
  have 2: "scan_back (rev l @ rev before) [] = scan_back (rev before) (rev l)"
    using scan_back_line [of "rev l" "rev before" "[]"] assms(2) by simp
  have 3: "scan_back (rev before) (rev l) = rev l"
  proof (cases before rule: rev_cases)
    case Nil
    then show ?thesis by simp
  next
    case (snoc ys y)
    with assms(3) have "y = CHR 0x0A" by simp
    with snoc assms(1) show ?thesis by simp
  qed
  show ?thesis
    unfolding last_json_line_def by (simp only: option.case 1 2 3 rev_rev_ident)
qed

subsection \<open>The resume flag\<close>

lemma continue_flag_in_cmd:
  "PROMPT \<noteq> ''--continue'' \<Longrightarrow> (''--continue'' \<in> set (claude_cmd PROMPT c)) = c"
  by (simp add: claude_cmd_def)

lemma main_loop_append:
  "main_loop completed PROMPT rt single_iteration sv (a @ b)
     = (case main_loop completed PROMPT rt single_iteration sv a of
          (s1, e1, h1) \<Rightarrow>
            if h1 = Continue
            then (case main_loop completed PROMPT rt single_iteration s1 b of
                    (s2, e2, h2) \<Rightarrow> (s2, e1 @ e2, h2))
            else (s1, e1, h1))"
proof (induction a arbitrary: sv)
  case Nil
  then show ?case by (simp split: prod.splits)
next
  case (Cons run a)
  show ?case
    by (simp add: Cons split: prod.splits)
qed

lemma main_loop_resume:
  "main_loop completed PROMPT rt single_iteration sv runs = (sv', evs, Continue) \<Longrightarrow> runs \<noteq> []
   \<Longrightarrow> continue_next sv'
       = (\<exists>epoch. rate_limit_reset_epoch rt (last_json_line (Some (log_file sv'))) = Inr (Some epoch))"
proof (induction runs arbitrary: sv sv' evs)
  case Nil
  then show ?case by simp
next
  case (Cons run runs)
  obtain s1 e1 h1 where it: "iteration completed PROMPT rt single_iteration sv run = (s1, e1, h1)"
    by (cases "iteration completed PROMPT rt single_iteration sv run")
  with Cons.prems(1) have h1: "h1 = Continue" by (auto split: if_splits)
  obtain s2 e2 h2 where ml: "main_loop completed PROMPT rt single_iteration s1 runs = (s2, e2, h2)"
    by (cases "main_loop completed PROMPT rt single_iteration s1 runs")
  from Cons.prems(1) it h1 ml have r: "sv' = s2" "h2 = Continue" by auto
  show ?case
  proof (cases "runs = []")
    case True
    with ml r have "sv' = s1" by simp
    with iteration_continue [OF it [unfolded h1]] show ?thesis by auto
  next
    case False
    from Cons.IH [OF ml [unfolded r(2)] False] r show ?thesis by simp
  qed
qed

lemma main_loop_first_spawn:
  assumes "main_loop completed PROMPT rt single_iteration sv (run # runs) = (sv', evs, how)"
  shows "\<exists>others. evs = Spawn (claude_cmd PROMPT (continue_next sv)) # others"
proof -
  obtain s1 e1 h1 where it: "iteration completed PROMPT rt single_iteration sv run = (s1, e1, h1)"
    by (cases "iteration completed PROMPT rt single_iteration sv run")
  from iteration_events [OF it] obtain sleeps where
    e1: "e1 = Spawn (claude_cmd PROMPT (continue_next sv)) # sleeps" by blast
  obtain s2 e2 h2 where ml: "main_loop completed PROMPT rt single_iteration s1 runs = (s2, e2, h2)"
    by (cases "main_loop completed PROMPT rt single_iteration s1 runs")
  from assms it ml have "evs = e1 \<or> evs = e1 @ e2" by (auto split: if_splits)
  with e1 show ?thesis by auto
qed

text \<open>
  Claim C9. With an instruction text other than the flag itself: the command line
  holds \<^verbatim>\<open>--continue\<close> exactly when \<^verbatim>\<open>claude_cmd\<close> is given true; the first spawn of
  maker.py and of fixer.py is without the flag; when the loop is still running after
  some iterations, the spawn of the next iteration has the flag if and only if
  \<^verbatim>\<open>rate_limit_reset_epoch\<close> returned an epoch for the last line of the log as it stood
  after those iterations; and in every iteration that does not stop, the resume
  request that leaves the iteration is that answer of the detector, whatever the
  request was when the iteration began.
\<close>

theorem continue_flag_follows_detection:
  assumes "PROMPT \<noteq> ''--continue''"
  shows "(''--continue'' \<in> set (claude_cmd PROMPT c)) = c
    \<and> (maker_main PROMPT rt single_iteration started logged (run # runs) = (sv, evs, how) \<longrightarrow>
         (\<exists>cmd others. evs = Spawn cmd # others \<and> ''--continue'' \<notin> set cmd))
    \<and> (fixer_main PROMPT rt single_iteration started logged (run # runs) = (fsv, fevs, fhow) \<longrightarrow>
         (\<exists>cmd others. fevs = Spawn cmd # others \<and> ''--continue'' \<notin> set cmd))
    \<and> (main_loop completed PROMPT rt single_iteration sv0 runs = (sv1, evs1, Continue) \<and> runs \<noteq> []
        \<and> main_loop completed PROMPT rt single_iteration sv0 (runs @ [run]) = (sv2, evs2, how2) \<longrightarrow>
         (\<exists>cmd others. evs2 = evs1 @ Spawn cmd # others
            \<and> (''--continue'' \<in> set cmd)
               = (\<exists>epoch. rate_limit_reset_epoch rt (last_json_line (Some (log_file sv1)))
                            = Inr (Some epoch))))
    \<and> (iteration completed PROMPT rt single_iteration sv3 run = (sv4, evs4, Continue) \<longrightarrow>
         continue_next sv4
           = (\<exists>epoch. rate_limit_reset_epoch rt (last_json_line (Some (log_file sv4)))
                        = Inr (Some epoch)))"
proof (intro conjI impI)
  show "(''--continue'' \<in> set (claude_cmd PROMPT c)) = c"
    using assms by (rule continue_flag_in_cmd)
next
  assume "maker_main PROMPT rt single_iteration started logged (run # runs) = (sv, evs, how)"
  then obtain others where "evs = Spawn (claude_cmd PROMPT False) # others"
    unfolding maker_main_def using main_loop_first_spawn [of is_done PROMPT rt single_iteration
        "initial started logged" run runs sv evs how]
    by (auto simp: initial_def)
  moreover have "''--continue'' \<notin> set (claude_cmd PROMPT False)"
    using continue_flag_in_cmd [OF assms, of False] by simp
  ultimately show "\<exists>cmd others. evs = Spawn cmd # others \<and> ''--continue'' \<notin> set cmd"
    by blast
next
  assume "fixer_main PROMPT rt single_iteration started logged (run # runs) = (fsv, fevs, fhow)"
  then obtain others where "fevs = Spawn (claude_cmd PROMPT False) # others"
    unfolding fixer_main_def using main_loop_first_spawn [of is_actually_working PROMPT rt
        single_iteration "initial started logged" run runs fsv fevs fhow]
    by (auto simp: initial_def)
  moreover have "''--continue'' \<notin> set (claude_cmd PROMPT False)"
    using continue_flag_in_cmd [OF assms, of False] by simp
  ultimately show "\<exists>cmd others. fevs = Spawn cmd # others \<and> ''--continue'' \<notin> set cmd"
    by blast
next
  assume a: "main_loop completed PROMPT rt single_iteration sv0 runs = (sv1, evs1, Continue)
      \<and> runs \<noteq> []
      \<and> main_loop completed PROMPT rt single_iteration sv0 (runs @ [run]) = (sv2, evs2, how2)"
  then have m1: "main_loop completed PROMPT rt single_iteration sv0 runs = (sv1, evs1, Continue)"
    and ne: "runs \<noteq> []"
    and m2: "main_loop completed PROMPT rt single_iteration sv0 (runs @ [run]) = (sv2, evs2, how2)"
    by auto
  obtain s e h where it: "iteration completed PROMPT rt single_iteration sv1 run = (s, e, h)"
    by (cases "iteration completed PROMPT rt single_iteration sv1 run")
  from m2 m1 it have e2: "evs2 = evs1 @ e"
    by (auto simp: main_loop_append split: if_splits)
  from iteration_events [OF it] obtain sleeps where
    e: "e = Spawn (claude_cmd PROMPT (continue_next sv1)) # sleeps" by blast
  have "(''--continue'' \<in> set (claude_cmd PROMPT (continue_next sv1))) = continue_next sv1"
    using assms by (rule continue_flag_in_cmd)
  with main_loop_resume [OF m1 ne] e e2
  show "\<exists>cmd others. evs2 = evs1 @ Spawn cmd # others
            \<and> (''--continue'' \<in> set cmd)
               = (\<exists>epoch. rate_limit_reset_epoch rt (last_json_line (Some (log_file sv1)))
                            = Inr (Some epoch))"
    by blast
next
  assume "iteration completed PROMPT rt single_iteration sv3 run = (sv4, evs4, Continue)"
  from iteration_continue [OF this]
  show "continue_next sv4
           = (\<exists>epoch. rate_limit_reset_epoch rt (last_json_line (Some (log_file sv4)))
                        = Inr (Some epoch))"
    by auto
qed


subsection \<open>Completion comes first\<close>




subsection \<open>The sample runs\<close>

lemma sample_stripped:
  "py_strip (line_a @ [CHR 0x0A]) = line_a" "py_strip line_a = line_a"
  "py_strip (line_no_usage @ [CHR 0x0A]) = line_no_usage" "py_strip line_no_usage = line_no_usage"
  "py_strip (line_usage_partial @ [CHR 0x0A]) = line_usage_partial"
  "py_strip line_usage_partial = line_usage_partial"
  "py_strip (line_done_error @ [CHR 0x0A]) = line_done_error"
  "py_strip line_done_error = line_done_error"
  "py_strip (line_working_error @ [CHR 0x0A]) = line_working_error"
  "py_strip line_working_error = line_working_error"
  by (simp_all add: py_strip_def is_space_def line_a_def line_no_usage_def line_usage_partial_def
      line_done_error_def line_working_error_def)

lemma sample_one_line:
  "CHR 0x0A \<notin> set line_a" "CHR 0x0A \<notin> set line_no_usage" "CHR 0x0A \<notin> set line_usage_partial"
  "CHR 0x0A \<notin> set line_done_error" "CHR 0x0A \<notin> set line_working_error"
  by (simp_all add: line_a_def line_no_usage_def line_usage_partial_def
      line_done_error_def line_working_error_def)

lemma sample_loads_plain:
  "json_loads sample_runtime line_a
     = Inr (JObject [(''is_error'', JBool True),
                     (''result'', JString ''Claude limit reached|1700000000'')])"
  "json_loads sample_runtime line_no_usage
     = Inr (JObject [(''type'', JString ''system''), (''subtype'', JString ''init'')])"
  "json_loads sample_runtime line_usage_partial
     = Inr (JObject [(''type'', JString ''user''), (''usage'', JObject [(''input_tokens'', JInt 4)])])"
  "json_loads sample_runtime line_done_error
     = Inr (JObject [(''type'', JString ''result''), (''is_error'', JBool True),
                  (''result'', JString ''DONE Claude usage limit reached|1700000000'')])"
  "json_loads sample_runtime line_working_error
     = Inr (JObject [(''type'', JString ''result''), (''is_error'', JBool True),
                  (''result'',
                   JString ''not ACTUALLY_WORKING yet: Claude usage limit reached|1700000000'')])"
  by (simp_all add: sample_runtime_def sample_loads_def sample_lines_def
      line_a_def line_b_def line_c_def line_c_padded_def line_usage_full_def
      line_usage_partial_def line_no_usage_def line_usage_null_def line_count_string_def
      line_usage_negative_def line_done_error_def line_working_error_def)

lemma sample_last_line:
  assumes "logged = [] \<or> last logged = CHR 0x0A"
  shows "last_json_line (Some (logged @ concat (run_output run_rate_limited))) = line_a"
    and "last_json_line (Some (logged @ concat (run_output run_plain))) = line_no_usage"
    and "last_json_line (Some (logged @ concat (run_output run_done_error))) = line_done_error"
    and "last_json_line (Some (logged @ concat (run_output run_working_error))) = line_working_error"
proof -
  have "last_json_line (Some ((logged @ line_no_usage @ [CHR 0x0A]) @ line_a @ [CHR 0x0A])) = line_a"
    by (rule last_json_line_final) (simp_all add: sample_nonempty sample_one_line)
  then show "last_json_line (Some (logged @ concat (run_output run_rate_limited))) = line_a"
    by (simp add: run_rate_limited_def)
  have "last_json_line (Some ((logged @ line_usage_partial @ [CHR 0x0A]) @ line_no_usage @ [CHR 0x0A]))
          = line_no_usage"
    by (rule last_json_line_final) (simp_all add: sample_nonempty sample_one_line)
  then show "last_json_line (Some (logged @ concat (run_output run_plain))) = line_no_usage"
    by (simp add: run_plain_def)
  have "last_json_line (Some ((logged @ line_usage_partial @ [CHR 0x0A]) @ line_done_error @ [CHR 0x0A]))
          = line_done_error"
    by (rule last_json_line_final) (simp_all add: sample_nonempty sample_one_line)
  then show "last_json_line (Some (logged @ concat (run_output run_done_error))) = line_done_error"
    by (simp add: run_done_error_def)
  have "last_json_line (Some ((logged @ line_usage_partial @ [CHR 0x0A]) @ line_working_error @ [CHR 0x0A]))
          = line_working_error"
    by (rule last_json_line_final) (simp_all add: sample_nonempty sample_one_line)
  then show "last_json_line (Some (logged @ concat (run_output run_working_error))) = line_working_error"
    by (simp add: run_working_error_def)
qed

lemma sample_parse:
  "parse_usage_from_json sample_runtime st line_a = (st, None)"
  "parse_usage_from_json sample_runtime st line_no_usage = (st, None)"
  "parse_usage_from_json sample_runtime st line_done_error = (st, None)"
  "parse_usage_from_json sample_runtime st line_working_error = (st, None)"
  "parse_usage_from_json sample_runtime st line_usage_partial
     = (st\<lparr>total_input_tokens := total_input_tokens st + 4\<rparr>, None)"
  by (simp_all add: parse_usage_from_json_def sample_nonempty sample_stripped sample_loads_plain
      usage_statements_def add_input_def add_output_def add_cache_read_def add_cache_write_def
      add_field_def)

lemma sample_feed:
  "feed_usage sample_runtime st (map py_strip (run_output run_rate_limited)) = (st, None)"
  "feed_usage sample_runtime st (map py_strip (run_output run_plain))
     = (st\<lparr>total_input_tokens := total_input_tokens st + 4\<rparr>, None)"
  "feed_usage sample_runtime st (map py_strip (run_output run_done_error))
     = (st\<lparr>total_input_tokens := total_input_tokens st + 4\<rparr>, None)"
  "feed_usage sample_runtime st (map py_strip (run_output run_working_error))
     = (st\<lparr>total_input_tokens := total_input_tokens st + 4\<rparr>, None)"
  by (simp_all add: run_rate_limited_def run_plain_def run_done_error_def run_working_error_def
      sample_stripped sample_parse)

lemma sample_matches:
  "RATE_LIMIT_MSG ''DONE Claude usage limit reached|1700000000''"
  "RATE_LIMIT_MSG ''not ACTUALLY_WORKING yet: Claude usage limit reached|1700000000''"
  by (simp_all add: RATE_LIMIT_MSG_def py_lower_def to_lower_def claude_limit_at_def
      word_then_reach_def)

lemma sample_verdicts:
  "\<not> startswith (py_upper (py_strip ''Claude limit reached|1700000000'')) ''DONE''"
  "startswith (py_upper (py_strip ''DONE Claude usage limit reached|1700000000'')) ''DONE''"
  "py_contains ''ACTUALLY_WORKING''
     (py_upper (py_strip ''not ACTUALLY_WORKING yet: Claude usage limit reached|1700000000''))"
  "py_strip ''1700000000'' = ''1700000000''"
  by (simp_all add: py_upper_def py_strip_def to_upper_def is_space_def)

lemma sample_detectors:
  "is_done sample_runtime line_a = Inr False"
  "is_done sample_runtime line_no_usage = Inr False"
  "rate_limit_reset_epoch sample_runtime line_a = Inr (Some 1700000000)"
  "rate_limit_reset_epoch sample_runtime line_no_usage = Inr None"
  "rate_limit_reset_epoch sample_runtime line_done_error = Inr (Some 1700000000)"
  "rate_limit_reset_epoch sample_runtime line_working_error = Inr (Some 1700000000)"
  "loop_rate_limit_reset_epoch sample_runtime five_oclock line_a = Inr (Some 1700000000)"
  by (simp_all add: is_done_def rate_limit_reset_epoch_def loop_rate_limit_reset_epoch_def
      sample_nonempty sample_stripped sample_loads_plain dict_get_def sample_a_matches
      sample_matches sample_int sample_verdicts)

lemma sample_after_exit:
  "after_exit is_done sample_runtime False 1699999000 line_a = ([Sleep 1000, Sleep 60], True, Continue)"
  "after_exit is_done sample_runtime False 1700000100 line_no_usage = ([Sleep 60], False, Continue)"
  "loop_after_exit sample_runtime five_oclock 1699999000 line_a
     = ([Sleep 1000, Sleep 60], True, Continue)"
  by (simp_all add: after_exit_def loop_after_exit_def sample_detectors)
     (simp_all add: sample_runtime_def)

lemma sample_iterations:
  assumes "logged = [] \<or> last logged = CHR 0x0A"
  shows "iteration is_done sample_prompt sample_runtime False
           \<lparr>continue_next = c, stats = st, log_file = logged\<rparr> run_rate_limited
         = (\<lparr>continue_next = True, stats = st\<lparr>iterations := iterations st + 1\<rparr>,
              log_file = logged @ concat (run_output run_rate_limited)\<rparr>,
            [Spawn (claude_cmd sample_prompt c), Sleep 1000, Sleep 60], Continue)"
    and "iteration is_done sample_prompt sample_runtime False
           \<lparr>continue_next = c, stats = st, log_file = logged\<rparr> run_plain
         = (\<lparr>continue_next = False,
              stats = st\<lparr>iterations := iterations st + 1,
                         total_input_tokens := total_input_tokens st + 4\<rparr>,
              log_file = logged @ concat (run_output run_plain)\<rparr>,
            [Spawn (claude_cmd sample_prompt c), Sleep 60], Continue)"
    and "loop_iteration sample_prompt sample_runtime (c, logged) run_rate_limited
         = ((True, logged @ concat (run_output run_rate_limited)),
            [Spawn (claude_cmd sample_prompt c), Sleep 1000, Sleep 60], Continue)"
proof -
  have c: "run_clock run_rate_limited = 1699999000" "run_clock run_plain = 1700000100"
    "run_now run_rate_limited = five_oclock"
    by (simp_all add: run_rate_limited_def run_plain_def)
  show "iteration is_done sample_prompt sample_runtime False
           \<lparr>continue_next = c, stats = st, log_file = logged\<rparr> run_rate_limited
         = (\<lparr>continue_next = True, stats = st\<lparr>iterations := iterations st + 1\<rparr>,
              log_file = logged @ concat (run_output run_rate_limited)\<rparr>,
            [Spawn (claude_cmd sample_prompt c), Sleep 1000, Sleep 60], Continue)"
    by (simp add: iteration_def Let_def sample_feed sample_last_line [OF assms] c sample_after_exit)
  show "iteration is_done sample_prompt sample_runtime False
           \<lparr>continue_next = c, stats = st, log_file = logged\<rparr> run_plain
         = (\<lparr>continue_next = False,
              stats = st\<lparr>iterations := iterations st + 1,
                         total_input_tokens := total_input_tokens st + 4\<rparr>,
              log_file = logged @ concat (run_output run_plain)\<rparr>,
            [Spawn (claude_cmd sample_prompt c), Sleep 60], Continue)"
    by (simp add: iteration_def Let_def sample_feed sample_last_line [OF assms] c sample_after_exit)
  show "loop_iteration sample_prompt sample_runtime (c, logged) run_rate_limited
         = ((True, logged @ concat (run_output run_rate_limited)),
            [Spawn (claude_cmd sample_prompt c), Sleep 1000, Sleep 60], Continue)"
    by (simp add: loop_iteration_def Let_def sample_last_line [OF assms] c sample_after_exit)
qed

lemma sample_logged:
  "last (concat (run_output run_rate_limited)) = CHR 0x0A"
  "last (concat (run_output run_plain)) = CHR 0x0A"
  "last (logged @ concat (run_output run_rate_limited)) = CHR 0x0A"
  "last (logged @ concat (run_output run_plain)) = CHR 0x0A"
  by (simp_all add: run_rate_limited_def run_plain_def)


lemma sample_two_runs:
  "main_loop is_done sample_prompt sample_runtime False (initial 0 []) [run_rate_limited]
     = (\<lparr>continue_next = True,
          stats = \<lparr>total_input_tokens = 0, total_output_tokens = 0, total_cache_read_tokens = 0,
                   total_cache_write_tokens = 0, iterations = 1, start_time = 0\<rparr>,
          log_file = concat (run_output run_rate_limited)\<rparr>,
        [Spawn (claude_cmd sample_prompt False), Sleep 1000, Sleep 60], Continue)"
  "main_loop is_done sample_prompt sample_runtime False (initial 0 [])
       ([run_rate_limited] @ [run_plain])
     = (\<lparr>continue_next = False,
          stats = \<lparr>total_input_tokens = 4, total_output_tokens = 0, total_cache_read_tokens = 0,
                   total_cache_write_tokens = 0, iterations = 2, start_time = 0\<rparr>,
          log_file = concat (run_output run_rate_limited) @ concat (run_output run_plain)\<rparr>,
        [Spawn (claude_cmd sample_prompt False), Sleep 1000, Sleep 60,
         Spawn (claude_cmd sample_prompt True), Sleep 60], Continue)"
  by (simp_all add: initial_def sample_iterations sample_logged)

theorem cooldown_before_next_spawn_witness:
  "iteration is_done sample_prompt sample_runtime False (initial 0 []) run_rate_limited
     = (\<lparr>continue_next = True,
          stats = \<lparr>total_input_tokens = 0, total_output_tokens = 0, total_cache_read_tokens = 0,
                   total_cache_write_tokens = 0, iterations = 1, start_time = 0\<rparr>,
          log_file = concat (run_output run_rate_limited)\<rparr>,
        [Spawn (claude_cmd sample_prompt False), Sleep 1000, Sleep 60], Continue)
   \<and> rate_limit_reset_epoch sample_runtime
         (last_json_line (Some (concat (run_output run_rate_limited)))) = Inr (Some 1700000000)
   \<and> max 0 (1700000000 - run_clock run_rate_limited) = 1000
   \<and> loop_iteration sample_prompt sample_runtime (False, []) run_rate_limited
     = ((True, concat (run_output run_rate_limited)),
        [Spawn (claude_cmd sample_prompt False), Sleep 1000, Sleep 60], Continue)
   \<and> main_loop is_done sample_prompt sample_runtime False (initial 0 [])
         ([run_rate_limited] @ [run_plain])
     = (\<lparr>continue_next = False,
          stats = \<lparr>total_input_tokens = 4, total_output_tokens = 0, total_cache_read_tokens = 0,
                   total_cache_write_tokens = 0, iterations = 2, start_time = 0\<rparr>,
          log_file = concat (run_output run_rate_limited) @ concat (run_output run_plain)\<rparr>,
        [Spawn (claude_cmd sample_prompt False), Sleep 1000, Sleep 60,
         Spawn (claude_cmd sample_prompt True), Sleep 60], Continue)
   \<and> is_spawn ([Spawn (claude_cmd sample_prompt False), Sleep 1000, Sleep 60,
                  Spawn (claude_cmd sample_prompt True), Sleep 60] ! 3)
   \<and> [Spawn (claude_cmd sample_prompt False), Sleep 1000, Sleep 60,
        Spawn (claude_cmd sample_prompt True), Sleep 60] ! (3 - 1) = Sleep 60
   \<and> loop_main_from sample_prompt sample_runtime (False, []) [run_rate_limited]
       = ((True, concat (run_output run_rate_limited)),
          [Spawn (claude_cmd sample_prompt False), Sleep 1000, Sleep 60], Continue)"
proof -
  have it: "iteration is_done sample_prompt sample_runtime False (initial 0 []) run_rate_limited
     = (\<lparr>continue_next = True,
          stats = \<lparr>total_input_tokens = 0, total_output_tokens = 0, total_cache_read_tokens = 0,
                   total_cache_write_tokens = 0, iterations = 1, start_time = 0\<rparr>,
          log_file = concat (run_output run_rate_limited)\<rparr>,
        [Spawn (claude_cmd sample_prompt False), Sleep 1000, Sleep 60], Continue)"
    by (simp add: initial_def sample_iterations)
  have lit: "loop_iteration sample_prompt sample_runtime (False, []) run_rate_limited
     = ((True, concat (run_output run_rate_limited)),
        [Spawn (claude_cmd sample_prompt False), Sleep 1000, Sleep 60], Continue)"
    using sample_iterations(3) [of "[]" False] by simp
  then have lml: "loop_main_from sample_prompt sample_runtime (False, []) [run_rate_limited]
       = ((True, concat (run_output run_rate_limited)),
          [Spawn (claude_cmd sample_prompt False), Sleep 1000, Sleep 60], Continue)"
    by simp
  have det: "rate_limit_reset_epoch sample_runtime
         (last_json_line (Some (concat (run_output run_rate_limited)))) = Inr (Some 1700000000)"
    using sample_last_line(1) [of "[]"] by (simp add: sample_detectors)
  have clock: "max 0 (1700000000 - run_clock run_rate_limited) = 1000"
    by (simp add: run_rate_limited_def)
  have sp: "is_spawn ([Spawn (claude_cmd sample_prompt False), Sleep 1000, Sleep 60,
                  Spawn (claude_cmd sample_prompt True), Sleep 60] ! 3)"
    by simp
  note c = cooldown_before_next_spawn
      [of is_done sample_prompt sample_runtime False "initial 0 []" run_rate_limited
         "\<lparr>continue_next = True,
          stats = \<lparr>total_input_tokens = 0, total_output_tokens = 0, total_cache_read_tokens = 0,
                   total_cache_write_tokens = 0, iterations = 1, start_time = 0\<rparr>,
          log_file = concat (run_output run_rate_limited)\<rparr>"
         "[Spawn (claude_cmd sample_prompt False), Sleep 1000, Sleep 60]"
         "(False, [])" "(True, concat (run_output run_rate_limited))"
         "[Spawn (claude_cmd sample_prompt False), Sleep 1000, Sleep 60]"
         "[run_rate_limited] @ [run_plain]"
         "\<lparr>continue_next = False,
          stats = \<lparr>total_input_tokens = 4, total_output_tokens = 0, total_cache_read_tokens = 0,
                   total_cache_write_tokens = 0, iterations = 2, start_time = 0\<rparr>,
          log_file = concat (run_output run_rate_limited) @ concat (run_output run_plain)\<rparr>"
         "[Spawn (claude_cmd sample_prompt False), Sleep 1000, Sleep 60,
           Spawn (claude_cmd sample_prompt True), Sleep 60]"
         Continue]
  from c sample_two_runs(2)
  have "\<forall>i. 0 < i
            \<and> i < length [Spawn (claude_cmd sample_prompt False), Sleep 1000, Sleep 60,
                          Spawn (claude_cmd sample_prompt True), Sleep 60]
            \<and> is_spawn ([Spawn (claude_cmd sample_prompt False), Sleep 1000, Sleep 60,
                          Spawn (claude_cmd sample_prompt True), Sleep 60] ! i)
        \<longrightarrow> [Spawn (claude_cmd sample_prompt False), Sleep 1000, Sleep 60,
              Spawn (claude_cmd sample_prompt True), Sleep 60] ! (i - 1) = Sleep 60"
    by blast
  from spec [OF this, of 3]
  have "[Spawn (claude_cmd sample_prompt False), Sleep 1000, Sleep 60,
        Spawn (claude_cmd sample_prompt True), Sleep 60] ! (3 - 1) = Sleep 60"
    by simp
  with it det clock lit sample_two_runs(2) sp lml show ?thesis
    by (simp only: simp_thms)
qed


theorem continue_flag_follows_detection_witness:
  "sample_prompt \<noteq> ''--continue''
   \<and> main_loop is_done sample_prompt sample_runtime False (initial 0 []) [run_rate_limited]
     = (\<lparr>continue_next = True,
          stats = \<lparr>total_input_tokens = 0, total_output_tokens = 0, total_cache_read_tokens = 0,
                   total_cache_write_tokens = 0, iterations = 1, start_time = 0\<rparr>,
          log_file = concat (run_output run_rate_limited)\<rparr>,
        [Spawn (claude_cmd sample_prompt False), Sleep 1000, Sleep 60], Continue)
   \<and> [run_rate_limited] \<noteq> []
   \<and> main_loop is_done sample_prompt sample_runtime False (initial 0 [])
         ([run_rate_limited] @ [run_plain])
     = (\<lparr>continue_next = False,
          stats = \<lparr>total_input_tokens = 4, total_output_tokens = 0, total_cache_read_tokens = 0,
                   total_cache_write_tokens = 0, iterations = 2, start_time = 0\<rparr>,
          log_file = concat (run_output run_rate_limited) @ concat (run_output run_plain)\<rparr>,
        [Spawn (claude_cmd sample_prompt False), Sleep 1000, Sleep 60]
        @ Spawn (claude_cmd sample_prompt True) # [Sleep 60], Continue)
   \<and> rate_limit_reset_epoch sample_runtime
         (last_json_line (Some (concat (run_output run_rate_limited)))) = Inr (Some 1700000000)
   \<and> ''--continue'' \<in> set (claude_cmd sample_prompt True)
   \<and> ''--continue'' \<notin> set (claude_cmd sample_prompt False)"
proof -
  have p: "sample_prompt \<noteq> ''--continue''"
    by (simp add: sample_prompt_def)
  have det: "rate_limit_reset_epoch sample_runtime
         (last_json_line (Some (concat (run_output run_rate_limited)))) = Inr (Some 1700000000)"
    using sample_last_line(1) [of "[]"] by (simp add: sample_detectors)
  note c = continue_flag_follows_detection [OF p]
  from c [of True] have yes: "''--continue'' \<in> set (claude_cmd sample_prompt True)"
    by simp
  from c [of False] have no: "''--continue'' \<notin> set (claude_cmd sample_prompt False)"
    by simp
  from p sample_two_runs det yes no show ?thesis
    by simp
qed


end
